theory Spec2Isabelle
  imports Main "HOL-Library.Multiset" "HOL-Library.AList"
begin

section \<open>Enumerations of the werewolf plugin\<close>

text \<open>
  The model follows \<^verbatim>\<open>Kristen23557_Werewolves-Master-Plugin/plugin.py\<close>.
  \<^verbatim>\<open>DeathReason.VOTE\<close> is written \<open>VOTE_REASON\<close> because \<^verbatim>\<open>GamePhase.VOTE\<close>
  already owns the name.

  Conventions. A function that mutates the room or the manager returns the new one. A
  Python exception that leaves a function (KeyError, IndexError) is the value \<open>None\<close>;
  what the function had changed before it raised is not modelled. A ValueError of
  \<^verbatim>\<open>int\<close> is caught where the source catches it. Messages sent to the group or to a
  player, files and time stamps are left out: no state depends on them.
\<close>

datatype GamePhase = SETUP | NIGHT | DAY | VOTE | HUNTER_REVENGE | WITCH_SAVE_PHASE | ENDED

datatype PlayerStatus = ALIVE | DEAD | EXILED

datatype DeathReason =
  WOLF_KILL | VOTE_REASON | POISON | HUNTER_SHOOT | SUICIDE | WHITE_WOLF | LOVER_SUICIDE

datatype Camp = VILLAGE | WOLF | THIRD_PARTY | LOVER

datatype WitchStatus = HAS_BOTH | HAS_SAVE_ONLY | HAS_POISON_ONLY | USED_BOTH

text \<open>The keys of the \<^verbatim>\<open>ROLES\<close> table, in the order of the table.\<close>

datatype Role =
  villager | seer | witch | hunter | wolf | hidden_wolf | guard | magician
  | double_faced | spiritualist | successor | painter | white_wolf | cupid

section \<open>The role catalogue\<close>

fun ROLES_camp :: "Role \<Rightarrow> Camp" where
  "ROLES_camp villager = VILLAGE"
| "ROLES_camp seer = VILLAGE"
| "ROLES_camp witch = VILLAGE"
| "ROLES_camp hunter = VILLAGE"
| "ROLES_camp wolf = WOLF"
| "ROLES_camp hidden_wolf = WOLF"
| "ROLES_camp guard = VILLAGE"
| "ROLES_camp magician = VILLAGE"
| "ROLES_camp double_faced = THIRD_PARTY"
| "ROLES_camp spiritualist = VILLAGE"
| "ROLES_camp successor = VILLAGE"
| "ROLES_camp painter = WOLF"
| "ROLES_camp white_wolf = WOLF"
| "ROLES_camp cupid = THIRD_PARTY"

fun ROLES_night_action :: "Role \<Rightarrow> bool" where
  "ROLES_night_action seer = True"
| "ROLES_night_action witch = True"
| "ROLES_night_action wolf = True"
| "ROLES_night_action guard = True"
| "ROLES_night_action magician = True"
| "ROLES_night_action spiritualist = True"
| "ROLES_night_action painter = True"
| "ROLES_night_action cupid = True"
| "ROLES_night_action _ = False"

fun ROLES_command :: "Role \<Rightarrow> string option" where
  "ROLES_command seer = Some ''check''"
| "ROLES_command witch = Some ''save/poison''"
| "ROLES_command hunter = Some ''shoot''"
| "ROLES_command wolf = Some ''kill''"
| "ROLES_command guard = Some ''guard''"
| "ROLES_command magician = Some ''swap''"
| "ROLES_command spiritualist = Some ''inspect''"
| "ROLES_command painter = Some ''disguise''"
| "ROLES_command white_wolf = Some ''explode''"
| "ROLES_command cupid = Some ''choose''"
| "ROLES_command _ = None"

section \<open>Players, rooms and the manager\<close>

text \<open>
  A player is the dictionary built by \<^verbatim>\<open>create_game\<close> and \<^verbatim>\<open>join_game\<close>. The field
  \<open>camp\<close> is the key \<^verbatim>\<open>"camp"\<close> that the double-faced flips add to it; it is absent
  (\<open>None\<close>) until then. A role is \<open>None\<close> until the deal.
\<close>

record Player =
  name :: string
  qq :: string
  number :: int
  role :: "Role option"
  original_role :: "Role option"
  status :: PlayerStatus
  death_reason :: "DeathReason option"
  killer :: "string option"
  has_acted :: bool
  is_lover :: bool
  lover_partner :: "string option"
  camp :: "Camp option"

text \<open>
  A room is the \<^verbatim>\<open>game\<close> dictionary. \<open>players\<close> is the dictionary from identity to
  player in insertion order (an association list with one entry per key);
  \<open>player_count\<close> and \<open>roles\<close> are \<^verbatim>\<open>settings\<close>. Time stamps and the archival
  code are values of the clock and are left out.
\<close>

record Game =
  room_id :: string
  host :: string
  group_id :: string
  players :: "(string \<times> Player) list"
  player_order :: "string list"
  player_count :: int
  roles :: "(Role \<times> int) list"
  phase :: GamePhase
  day_count :: int
  night_actions :: "string \<rightharpoonup> string"
  votes :: "(string \<times> int) list"
  death_queue :: "(string \<times> DeathReason \<times> string) list"
  lovers :: "string list"
  guard_protected :: "int option"
  last_guard_target :: "int option"
  magician_swap :: "(int \<times> int) option"
  painter_disguised :: "Role option"
  white_wolf_exploded :: bool
  witch_status :: WitchStatus
  witch_save_candidates :: "(int \<times> string) list"
  witch_used_save_this_night :: bool
  witch_used_poison_this_night :: bool
  winner :: "string option"
  saved_players :: "string set"

text \<open>
  The manager singleton: the live rooms by room id, in insertion order, and the profile
  store, of which only the display name is modelled.
\<close>

record Manager =
  games :: "(string \<times> Game) list"
  player_profiles :: "string \<rightharpoonup> string"

definition get_or_create_profile :: "Manager \<Rightarrow> string \<Rightarrow> string \<Rightarrow> Manager" where
  "get_or_create_profile m q n =
     (case player_profiles m q of
        None \<Rightarrow> m\<lparr>player_profiles := (player_profiles m)(q \<mapsto> n)\<rparr>
      | Some _ \<Rightarrow> m)"

definition new_player :: "string \<Rightarrow> string \<Rightarrow> int \<Rightarrow> Player" where
  "new_player q n k =
     \<lparr>name = n, qq = q, number = k, role = None, original_role = None, status = ALIVE,
      death_reason = None, killer = None, has_acted = False, is_lover = False,
      lover_partner = None, camp = None\<rparr>"

definition default_roles :: "(Role \<times> int) list" where
  "default_roles =
     [(villager, 2), (seer, 1), (witch, 1), (hunter, 1), (wolf, 2), (hidden_wolf, 0),
      (guard, 0), (magician, 0), (double_faced, 0), (spiritualist, 0), (successor, 0),
      (painter, 0), (white_wolf, 0), (cupid, 0)]"

definition create_game :: "Manager \<Rightarrow> string \<Rightarrow> string \<Rightarrow> string \<Rightarrow> string \<Rightarrow> Manager \<times> Game" where
  "create_game m rid host_qq gid host_name =
     (let game =
        \<lparr>room_id = rid, host = host_qq, group_id = gid,
         players = [(host_qq, new_player host_qq host_name 1)],
         player_order = [host_qq],
         player_count = 8, roles = default_roles,
         phase = SETUP, day_count = 0, night_actions = Map.empty, votes = [],
         death_queue = [], lovers = [], guard_protected = None, last_guard_target = None,
         magician_swap = None, painter_disguised = None, white_wolf_exploded = False,
         witch_status = HAS_BOTH, witch_save_candidates = [],
         witch_used_save_this_night = False, witch_used_poison_this_night = False,
         winner = None, saved_players = {}\<rparr>;
        m1 = get_or_create_profile m host_qq host_name
      in (m1\<lparr>games := AList.update rid game (games m1)\<rparr>, game))"

definition join_game :: "Manager \<Rightarrow> string \<Rightarrow> string \<Rightarrow> string \<Rightarrow> Manager \<times> bool" where
  "join_game m rid player_qq player_name =
     (case map_of (games m) rid of
        None \<Rightarrow> (m, False)
      | Some game \<Rightarrow>
          if int (length (players game)) \<ge> player_count game then (m, False)
          else if player_qq \<in> fst ` set (players game) then (m, False)
          else
            let m1 = get_or_create_profile m player_qq player_name;
                game' = game\<lparr>
                  players := players game @
                    [(player_qq, new_player player_qq player_name (int (length (players game)) + 1))],
                  player_order := player_order game @ [player_qq]\<rparr>
            in (m1\<lparr>games := AList.update rid game' (games m1)\<rparr>, True))"

section \<open>Dealing the roles\<close>

text \<open>
  \<^verbatim>\<open>random.shuffle\<close> walks the list from its last index down to 1 and swaps position
  \<open>i\<close> with a position drawn below \<open>i + 1\<close>. The draws are the parameter \<open>rnd\<close>.
\<close>

fun shuffle_loop :: "(nat \<Rightarrow> nat) \<Rightarrow> nat \<Rightarrow> 'a list \<Rightarrow> 'a list" where
  "shuffle_loop rnd 0 xs = xs"
| "shuffle_loop rnd (Suc i) xs =
     (let j = rnd (Suc i) mod (Suc i + 1)
      in shuffle_loop rnd i (xs[Suc i := xs ! j, j := xs ! Suc i]))"

definition shuffle :: "(nat \<Rightarrow> nat) \<Rightarrow> 'a list \<Rightarrow> 'a list" where
  "shuffle rnd xs = shuffle_loop rnd (length xs - 1) xs"

text \<open>\<^verbatim>\<open>[role_id] * count\<close> is empty for a count below 1.\<close>

definition roles_to_assign :: "(Role \<times> int) list \<Rightarrow> Role list" where
  "roles_to_assign rs = concat (map (\<lambda>(r, c). replicate (nat c) r) rs)"

text \<open>
  The deal: seat \<open>i\<close> of \<open>player_order\<close> gets entry \<open>i\<close> of the shuffled list. A seat
  past the list (IndexError) or an identity missing from \<open>players\<close> (KeyError) raises,
  which is \<open>None\<close>.
\<close>

fun assign_roles :: "Role list \<Rightarrow> string list \<Rightarrow> (string \<times> Player) list \<Rightarrow> (string \<times> Player) list option" where
  "assign_roles rs [] ps = Some ps"
| "assign_roles [] (q # qs) ps = None"
| "assign_roles (r # rs) (q # qs) ps =
     (case map_of ps q of
        None \<Rightarrow> None
      | Some p \<Rightarrow>
          assign_roles rs qs
            (AList.update q (p\<lparr>role := Some r, original_role := Some r\<rparr>) ps))"

definition start_game :: "(nat \<Rightarrow> nat) \<Rightarrow> Manager \<Rightarrow> string \<Rightarrow> (Manager \<times> bool) option" where
  "start_game rnd m rid =
     (case map_of (games m) rid of
        None \<Rightarrow> Some (m, False)
      | Some game \<Rightarrow>
          if length (players game) < 6 then Some (m, False)
          else if length (roles_to_assign (roles game)) \<noteq> length (players game)
            then Some (m, False)
          else
            (case assign_roles (shuffle rnd (roles_to_assign (roles game)))
                    (player_order game) (players game) of
               None \<Rightarrow> None
             | Some ps \<Rightarrow>
                 Some (m\<lparr>games := AList.update rid
                           (game\<lparr>players := ps, phase := NIGHT, day_count := 1\<rparr>) (games m)\<rparr>,
                       True)))"

section \<open>Reading numbers out of command text\<close>

text \<open>
  \<^verbatim>\<open>int(s)\<close> on a string: surrounding white space is dropped, then an optional sign
  and decimal digits are read; anything else raises ValueError, which is \<open>None\<close>.
  (Digit-group underscores and digits outside ASCII, which Python also reads, are
  outside the model.)
\<close>

definition digit_of :: "char \<Rightarrow> int option" where
  "digit_of c =
     map_of [(CHR ''0'', 0), (CHR ''1'', 1), (CHR ''2'', 2), (CHR ''3'', 3), (CHR ''4'', 4),
             (CHR ''5'', 5), (CHR ''6'', 6), (CHR ''7'', 7), (CHR ''8'', 8), (CHR ''9'', 9)] c"

fun digits_value :: "int \<Rightarrow> string \<Rightarrow> int option" where
  "digits_value acc [] = Some acc"
| "digits_value acc (c # cs) =
     (case digit_of c of None \<Rightarrow> None | Some d \<Rightarrow> digits_value (10 * acc + d) cs)"

definition is_space :: "char \<Rightarrow> bool" where
  "is_space c \<longleftrightarrow> c \<in> {CHR '' '', CHR 0x09, CHR 0x0A, CHR 0x0B, CHR 0x0C, CHR 0x0D}"

definition strip :: "string \<Rightarrow> string" where
  "strip s = rev (dropWhile is_space (rev (dropWhile is_space s)))"

definition py_int :: "string \<Rightarrow> int option" where
  "py_int s =
     (case strip s of
        [] \<Rightarrow> None
      | c # cs \<Rightarrow>
          if c = CHR ''-'' then (if cs = [] then None else map_option uminus (digits_value 0 cs))
          else if c = CHR ''+'' then (if cs = [] then None else digits_value 0 cs)
          else digits_value 0 (c # cs))"

text \<open>\<^verbatim>\<open>s.split()\<close>: the maximal runs of characters that are not white space.\<close>

fun split_loop :: "string \<Rightarrow> string \<Rightarrow> string list" where
  "split_loop cur [] = (if cur = [] then [] else [cur])"
| "split_loop cur (c # cs) =
     (if is_space c then (if cur = [] then split_loop [] cs else cur # split_loop [] cs)
      else split_loop (cur @ [c]) cs)"

definition py_split :: "string \<Rightarrow> string list" where
  "py_split s = split_loop [] s"

text \<open>
  \<^verbatim>\<open>game["night_actions"].get(key)\<close> followed by \<^verbatim>\<open>if not action: return\<close>: a missing key
  and an empty string both count as no action.
\<close>

definition get_action :: "Game \<Rightarrow> string \<Rightarrow> string option" where
  "get_action g key =
     (case night_actions g key of None \<Rightarrow> None | Some a \<Rightarrow> if a = [] then None else Some a)"

section \<open>Looking players up\<close>

text \<open>
  A player object is referred to by its key in \<open>players\<close>, so a lookup returns the
  key with the record and an assignment to a field goes through the key.
\<close>

definition get_player_by_number :: "Game \<Rightarrow> int \<Rightarrow> (string \<times> Player) option" where
  "get_player_by_number g n = find (\<lambda>(k, p). number p = n) (players g)"

definition get_player_by_role :: "Game \<Rightarrow> Role \<Rightarrow> (string \<times> Player) option" where
  "get_player_by_role g r = find (\<lambda>(k, p). role p = Some r \<and> status p = ALIVE) (players g)"

definition upd_player :: "string \<Rightarrow> (Player \<Rightarrow> Player) \<Rightarrow> Game \<Rightarrow> Game" where
  "upd_player k f g = g\<lparr>players := AList.map_entry k f (players g)\<rparr>"

fun get_role_action_key :: "Role \<Rightarrow> string" where
  "get_role_action_key seer = ''seer''"
| "get_role_action_key witch = ''witch_poison''"
| "get_role_action_key wolf = ''wolf_kill''"
| "get_role_action_key guard = ''guard''"
| "get_role_action_key magician = ''magician''"
| "get_role_action_key spiritualist = ''spiritualist''"
| "get_role_action_key cupid = ''cupid''"
| "get_role_action_key painter = ''painter''"
| "get_role_action_key _ = []"

section \<open>The night\<close>

text \<open>
  The roles of the living players that must act at night, the witch apart.
  \<^verbatim>\<open>ROLES[player["role"]]\<close> raises KeyError for a living player without a role.
\<close>

fun night_action_players :: "(string \<times> Player) list \<Rightarrow> Role list option" where
  "night_action_players [] = Some []"
| "night_action_players ((k, p) # ps) =
     (if status p \<noteq> ALIVE then night_action_players ps
      else case role p of
             None \<Rightarrow> None
           | Some r \<Rightarrow>
               (case night_action_players ps of
                  None \<Rightarrow> None
                | Some rs \<Rightarrow> Some (if ROLES_night_action r \<and> r \<noteq> witch then r # rs else rs)))"

definition check_all_night_actions_completed :: "Game \<Rightarrow> bool option" where
  "check_all_night_actions_completed g =
     (case night_action_players (players g) of
        None \<Rightarrow> None
      | Some rs \<Rightarrow> Some (list_all (\<lambda>r. night_actions g (get_role_action_key r) \<noteq> None) rs))"

definition calculate_potential_deaths :: "Game \<Rightarrow> (int \<times> string) list" where
  "calculate_potential_deaths g =
     (case get_action g ''wolf_kill'' of
        None \<Rightarrow> []
      | Some a \<Rightarrow>
          (case py_int a of
             None \<Rightarrow> []
           | Some target_num \<Rightarrow>
               (case get_player_by_number g target_num of
                  None \<Rightarrow> []
                | Some (k, target_player) \<Rightarrow>
                    if status target_player = ALIVE \<and> role target_player \<noteq> Some double_faced
                    then [(target_num, name target_player)] else [])))"

definition process_cupid_action :: "Game \<Rightarrow> Game" where
  "process_cupid_action g =
     (case get_action g ''cupid'' of
        None \<Rightarrow> g
      | Some a \<Rightarrow>
          (case py_split a of
             s1 # s2 # _ \<Rightarrow>
               (case (py_int s1, py_int s2) of
                  (Some n1, Some n2) \<Rightarrow>
                    (case (get_player_by_number g n1, get_player_by_number g n2) of
                       (Some (k1, player1), Some (k2, player2)) \<Rightarrow>
                         if status player1 = ALIVE \<and> status player2 = ALIVE then
                           (let g1 = upd_player k1
                                  (\<lambda>p. p\<lparr>is_lover := True, lover_partner := Some (qq player2)\<rparr>) g;
                                g2 = upd_player k2
                                  (\<lambda>p. p\<lparr>is_lover := True, lover_partner := Some (qq player1)\<rparr>) g1
                            in g2\<lparr>lovers := lovers g2 @ [qq player1, qq player2]\<rparr>)
                         else g
                     | _ \<Rightarrow> g)
                | _ \<Rightarrow> g)
           | _ \<Rightarrow> g))"

definition process_guard_action :: "Game \<Rightarrow> Game" where
  "process_guard_action g =
     (case get_action g ''guard'' of
        None \<Rightarrow> g
      | Some a \<Rightarrow>
          (case py_int a of
             None \<Rightarrow> g
           | Some target_num \<Rightarrow>
               (case get_player_by_number g target_num of
                  None \<Rightarrow> g
                | Some (k, target_player) \<Rightarrow>
                    if status target_player = ALIVE then
                      (if Some target_num \<noteq> last_guard_target g
                       then g\<lparr>guard_protected := Some target_num,
                              last_guard_target := Some target_num\<rparr>
                       else g)
                    else g)))"

definition process_wolf_action :: "Game \<Rightarrow> Game" where
  "process_wolf_action g =
     (case get_action g ''wolf_kill'' of
        None \<Rightarrow> g
      | Some a \<Rightarrow>
          (case py_int a of
             None \<Rightarrow> g
           | Some target_num \<Rightarrow>
               (case get_player_by_number g target_num of
                  None \<Rightarrow> g
                | Some (k, target_player) \<Rightarrow>
                    if status target_player = ALIVE then
                      (if Some target_num = guard_protected g then g
                       else if role target_player = Some double_faced
                         then upd_player k (\<lambda>p. p\<lparr>camp := Some WOLF\<rparr>) g
                       else if qq target_player \<in> saved_players g then g
                       else g\<lparr>death_queue :=
                                death_queue g @ [(qq target_player, WOLF_KILL, ''wolf'')]\<rparr>)
                    else g)))"

text \<open>
  The seer and the spiritualist only send a private message; reading the target's role
  in \<^verbatim>\<open>ROLES\<close> raises KeyError when the target has none.
\<close>

definition process_seer_action :: "Game \<Rightarrow> Game option" where
  "process_seer_action g =
     (case get_action g ''seer'' of
        None \<Rightarrow> Some g
      | Some a \<Rightarrow>
          (case py_int a of
             None \<Rightarrow> Some g
           | Some target_num \<Rightarrow>
               (case (get_player_by_number g target_num, get_player_by_role g seer) of
                  (Some (k, target_player), Some _) \<Rightarrow>
                    (case role target_player of None \<Rightarrow> None | Some _ \<Rightarrow> Some g)
                | _ \<Rightarrow> Some g)))"

definition process_witch_poison_action :: "Game \<Rightarrow> Game" where
  "process_witch_poison_action g =
     (case get_action g ''witch_poison'' of
        None \<Rightarrow> g
      | Some a \<Rightarrow>
          (case get_player_by_role g witch of
             None \<Rightarrow> g
           | Some (wk, witch_player) \<Rightarrow>
               (case py_int a of
                  None \<Rightarrow> g
                | Some target_num \<Rightarrow>
                    (case get_player_by_number g target_num of
                       None \<Rightarrow> g
                     | Some (k, target_player) \<Rightarrow>
                         if witch_status g \<noteq> HAS_BOTH \<and> witch_status g \<noteq> HAS_POISON_ONLY then g
                         else
                           (let g1 = g\<lparr>witch_used_poison_this_night := True,
                                       witch_status :=
                                         (if witch_status g = HAS_BOTH then HAS_SAVE_ONLY
                                          else if witch_status g = HAS_POISON_ONLY then USED_BOTH
                                          else witch_status g)\<rparr>
                            in if role target_player = Some spiritualist
                                  \<or> role target_player = Some double_faced
                               then g1
                               else g1\<lparr>death_queue :=
                                         death_queue g1
                                           @ [(qq target_player, POISON, qq witch_player)]\<rparr>)))))"

definition process_spiritualist_action :: "Game \<Rightarrow> Game option" where
  "process_spiritualist_action g =
     (case get_action g ''spiritualist'' of
        None \<Rightarrow> Some g
      | Some a \<Rightarrow>
          (case py_int a of
             None \<Rightarrow> Some g
           | Some target_num \<Rightarrow>
               (case (get_player_by_number g target_num, get_player_by_role g spiritualist) of
                  (Some (k, target_player), Some _) \<Rightarrow>
                    (case role target_player of None \<Rightarrow> None | Some _ \<Rightarrow> Some g)
                | _ \<Rightarrow> Some g)))"

definition process_magician_action :: "Game \<Rightarrow> Game" where
  "process_magician_action g =
     (case get_action g ''magician'' of
        None \<Rightarrow> g
      | Some a \<Rightarrow>
          (case py_split a of
             s1 # s2 # _ \<Rightarrow>
               (case (py_int s1, py_int s2) of
                  (Some num1, Some num2) \<Rightarrow>
                    (case (get_player_by_number g num1, get_player_by_number g num2) of
                       (Some _, Some _) \<Rightarrow> g\<lparr>magician_swap := Some (num1, num2)\<rparr>
                     | _ \<Rightarrow> g)
                | _ \<Rightarrow> g)
           | _ \<Rightarrow> g))"

definition process_painter_action :: "Game \<Rightarrow> Game option" where
  "process_painter_action g =
     (case get_action g ''painter'' of
        None \<Rightarrow> Some g
      | Some a \<Rightarrow>
          (case py_int a of
             None \<Rightarrow> Some g
           | Some target_num \<Rightarrow>
               (case (get_player_by_number g target_num, get_player_by_role g painter) of
                  (Some (k, target_player), Some _) \<Rightarrow>
                    if status target_player \<noteq> ALIVE then
                      (case role target_player of
                         None \<Rightarrow> None
                       | Some r \<Rightarrow> Some (g\<lparr>painter_disguised := Some r\<rparr>))
                    else Some g
                | _ \<Rightarrow> Some g)))"

section \<open>Executing the death queue\<close>

text \<open>
  One entry of the queue: a victim who is alive dies, and when the victim is a lover
  whose partner is still alive the partner dies with it. A key that is not in
  \<open>players\<close> raises KeyError.
\<close>

definition execute_death ::
  "string \<times> DeathReason \<times> string \<Rightarrow> (string \<times> Player) list \<Rightarrow> (string \<times> Player) list option" where
  "execute_death d ps =
     (case d of (player_qq, reason, k) \<Rightarrow>
        (case map_of ps player_qq of
           None \<Rightarrow> None
         | Some player \<Rightarrow>
             if status player = ALIVE then
               (let ps1 = AList.map_entry player_qq
                            (\<lambda>p. p\<lparr>status := DEAD, death_reason := Some reason,
                                   killer := Some k\<rparr>) ps
                in if is_lover player then
                     (case lover_partner player of
                        None \<Rightarrow> Some ps1
                      | Some partner \<Rightarrow>
                          if partner = [] then Some ps1
                          else
                            (case map_of ps1 partner of
                               None \<Rightarrow> None
                             | Some lover \<Rightarrow>
                                 if status lover = ALIVE then
                                   Some (AList.map_entry partner
                                          (\<lambda>p. p\<lparr>status := DEAD,
                                                 death_reason := Some LOVER_SUICIDE,
                                                 killer := Some (qq player)\<rparr>) ps1)
                                 else Some ps1))
                   else Some ps1)
             else Some ps))"

fun execute_death_loop ::
  "(string \<times> DeathReason \<times> string) list \<Rightarrow> (string \<times> Player) list \<Rightarrow> (string \<times> Player) list option" where
  "execute_death_loop [] ps = Some ps"
| "execute_death_loop (d # ds) ps =
     (case execute_death d ps of None \<Rightarrow> None | Some ps1 \<Rightarrow> execute_death_loop ds ps1)"

definition execute_deaths :: "Game \<Rightarrow> Game option" where
  "execute_deaths g =
     (case execute_death_loop (death_queue g) (players g) of
        None \<Rightarrow> None
      | Some ps \<Rightarrow> Some (g\<lparr>players := ps, death_queue := []\<rparr>))"

section \<open>The win-condition evaluator\<close>

text \<open>
  The four counters of \<^verbatim>\<open>_check_game_end\<close>, in the order village, wolf, third party,
  lovers. The camp is read from \<^verbatim>\<open>ROLES[player["original_role"]]\<close>, which raises
  KeyError for a living player without a role.
\<close>

fun count_camps :: "(string \<times> Player) list \<Rightarrow> (nat \<times> nat \<times> nat \<times> nat) option" where
  "count_camps [] = Some (0, 0, 0, 0)"
| "count_camps ((k, p) # ps) =
     (if status p \<noteq> ALIVE then count_camps ps
      else case original_role p of
             None \<Rightarrow> None
           | Some r \<Rightarrow>
               (case count_camps ps of
                  None \<Rightarrow> None
                | Some (village_alive, wolf_alive, third_party_alive, lovers_alive) \<Rightarrow>
                    Some (if is_lover p
                            then (village_alive, wolf_alive, third_party_alive, lovers_alive + 1)
                          else if ROLES_camp r = VILLAGE
                            then (village_alive + 1, wolf_alive, third_party_alive, lovers_alive)
                          else if ROLES_camp r = WOLF
                            then (village_alive, wolf_alive + 1, third_party_alive, lovers_alive)
                          else if ROLES_camp r = THIRD_PARTY
                            then (village_alive, wolf_alive, third_party_alive + 1, lovers_alive)
                          else (village_alive, wolf_alive, third_party_alive, lovers_alive))))"

text \<open>
  The result is the room and whether the game ended. When it ended the caller archives
  the room, which takes it out of the live rooms (\<open>archive_game\<close> below).
\<close>

definition check_game_end :: "Game \<Rightarrow> (Game \<times> bool) option" where
  "check_game_end g =
     (case count_camps (players g) of
        None \<Rightarrow> None
      | Some (village_alive, wolf_alive, third_party_alive, lovers_alive) \<Rightarrow>
          if wolf_alive = 0
            then Some (g\<lparr>winner := Some ''village'', phase := ENDED\<rparr>, True)
          else if wolf_alive \<ge> village_alive + third_party_alive
            then Some (g\<lparr>winner := Some ''wolf'', phase := ENDED\<rparr>, True)
          else if lovers_alive > 0 \<and> village_alive + wolf_alive + third_party_alive = 0
            then Some (g\<lparr>winner := Some ''lover'', phase := ENDED\<rparr>, True)
          else if third_party_alive > 0 \<and> village_alive + wolf_alive + lovers_alive = 0
            then Some (g\<lparr>winner := Some ''third_party'', phase := ENDED\<rparr>, True)
          else Some (g, False))"

section \<open>Night resolution\<close>

text \<open>
  \<^verbatim>\<open>_process_all_night_actions\<close>: the abilities in their fixed order, the death queue,
  the win check, and the move to the day. The Boolean of the result says that the game
  ended (and was archived).
\<close>

definition process_all_night_actions :: "Game \<Rightarrow> (Game \<times> bool) option" where
  "process_all_night_actions g =
     (let g1 = (if day_count g = 1 then process_cupid_action g else g);
          g2 = process_guard_action g1;
          g3 = process_wolf_action g2
      in case process_seer_action g3 of
           None \<Rightarrow> None
         | Some g4 \<Rightarrow>
             (case process_spiritualist_action (process_witch_poison_action g4) of
                None \<Rightarrow> None
              | Some g6 \<Rightarrow>
                  (case (if day_count g \<ge> 2
                         then process_painter_action (process_magician_action g6)
                         else Some (process_magician_action g6)) of
                     None \<Rightarrow> None
                   | Some g8 \<Rightarrow>
                       (case execute_deaths g8 of
                          None \<Rightarrow> None
                        | Some g9 \<Rightarrow>
                            (case check_game_end g9 of
                               None \<Rightarrow> None
                             | Some (g10, True) \<Rightarrow> Some (g10, True)
                             | Some (g10, False) \<Rightarrow>
                                 Some (g10\<lparr>phase := DAY, night_actions := Map.empty,
                                           witch_save_candidates := [],
                                           witch_used_save_this_night := False,
                                           witch_used_poison_this_night := False,
                                           saved_players := {}\<rparr>, False))))))"

definition process_night_actions :: "Game \<Rightarrow> (Game \<times> bool) option" where
  "process_night_actions g =
     (case check_all_night_actions_completed g of
        None \<Rightarrow> None
      | Some all_acted \<Rightarrow>
          if \<not> all_acted then Some (g, False)
          else
            (case get_player_by_role g witch of
               None \<Rightarrow> process_all_night_actions g
             | Some (wk, witch_player) \<Rightarrow>
                 if status witch_player = ALIVE
                    \<and> (witch_status g = HAS_BOTH \<or> witch_status g = HAS_SAVE_ONLY)
                    \<and> \<not> witch_used_save_this_night g
                 then
                   (let potential_deaths = calculate_potential_deaths g;
                        g1 = g\<lparr>witch_save_candidates := potential_deaths\<rparr>
                    in if potential_deaths \<noteq> []
                       then Some (g1\<lparr>phase := WITCH_SAVE_PHASE\<rparr>, False)
                       else process_all_night_actions g1)
                 else process_all_night_actions g))"

definition process_witch_save_phase :: "Game \<Rightarrow> (Game \<times> bool) option" where
  "process_witch_save_phase g =
     (case get_player_by_role g witch of
        None \<Rightarrow> process_all_night_actions g
      | Some (wk, witch_player) \<Rightarrow>
          (case get_action g ''witch_save'' of
             Some a \<Rightarrow>
               (case py_int a of
                  None \<Rightarrow> process_all_night_actions g
                | Some target_num \<Rightarrow>
                    if target_num \<in> set (map fst (witch_save_candidates g)) then
                      (let g1 = g\<lparr>witch_used_save_this_night := True,
                                  witch_status :=
                                    (if witch_status g = HAS_BOTH then HAS_POISON_ONLY
                                     else if witch_status g = HAS_SAVE_ONLY then USED_BOTH
                                     else witch_status g)\<rparr>
                       in case get_player_by_number g1 target_num of
                            None \<Rightarrow> process_all_night_actions g1
                          | Some (k, target_player) \<Rightarrow>
                              process_all_night_actions
                                (g1\<lparr>saved_players := insert (qq target_player) (saved_players g1)\<rparr>))
                    else process_all_night_actions g)
           | None \<Rightarrow>
               (case get_action g ''witch_skip'' of
                  Some _ \<Rightarrow> process_all_night_actions (g\<lparr>witch_used_save_this_night := True\<rparr>)
                | None \<Rightarrow> process_all_night_actions g)))"

section \<open>Vote resolution\<close>

text \<open>
  The votes whose voter is alive, in the order of the \<open>votes\<close> dictionary.
  \<^verbatim>\<open>game["players"][voter_qq]\<close> raises KeyError for a voter who is not seated.
\<close>

fun living_votes :: "(string \<times> Player) list \<Rightarrow> (string \<times> int) list \<Rightarrow> (string \<times> int) list option" where
  "living_votes ps [] = Some []"
| "living_votes ps ((voter_qq, vote_number) # vs) =
     (case map_of ps voter_qq of
        None \<Rightarrow> None
      | Some p \<Rightarrow>
          (case living_votes ps vs of
             None \<Rightarrow> None
           | Some r \<Rightarrow> Some (if status p = ALIVE then (voter_qq, vote_number) # r else r)))"

text \<open>\<^verbatim>\<open>vote_count[n] = vote_count.get(n, 0) + 1\<close> over the votes, one after the other.\<close>

fun tally :: "int list \<Rightarrow> (int \<times> nat) list \<Rightarrow> (int \<times> nat) list" where
  "tally [] vote_count = vote_count"
| "tally (n # ns) vote_count =
     tally ns (AList.update n (case map_of vote_count n of None \<Rightarrow> 1 | Some c \<Rightarrow> c + 1) vote_count)"

text \<open>\<^verbatim>\<open>max\<close> of the counts; it is only called on a tally that is not empty.\<close>

fun max_list :: "nat list \<Rightarrow> nat" where
  "max_list [] = 0"
| "max_list [x] = x"
| "max_list (x # y # ys) = max x (max_list (y # ys))"

definition vote_candidates :: "(int \<times> nat) list \<Rightarrow> int list" where
  "vote_candidates vote_count =
     map fst (filter (\<lambda>(num, c). c = max_list (map snd vote_count)) vote_count)"

definition exile :: "Game \<Rightarrow> int \<Rightarrow> Game" where
  "exile g exiled_number =
     (case find (\<lambda>(k, p). number p = exiled_number \<and> status p = ALIVE) (players g) of
        None \<Rightarrow> g
      | Some (k, exiled_player) \<Rightarrow>
          upd_player k
            (\<lambda>p. if role exiled_player = Some double_faced
                 then p\<lparr>status := EXILED, death_reason := Some VOTE_REASON, camp := Some VILLAGE\<rparr>
                 else p\<lparr>status := EXILED, death_reason := Some VOTE_REASON\<rparr>) g)"

definition hunter_pending :: "Game \<Rightarrow> bool" where
  "hunter_pending g \<longleftrightarrow>
     list_ex (\<lambda>(k, p). (status p = DEAD \<or> status p = EXILED) \<and> role p = Some hunter
                      \<and> death_reason p \<noteq> Some POISON) (players g)"

text \<open>
  \<^verbatim>\<open>process_vote\<close>. The Boolean is the function's return value: \<open>False\<close> while a living
  player has not voted yet, \<open>True\<close> once the vote was resolved.
\<close>

definition process_vote :: "Game \<Rightarrow> (Game \<times> bool) option" where
  "process_vote g =
     (case living_votes (players g) (votes g) of
        None \<Rightarrow> None
      | Some lv \<Rightarrow>
          if length lv < length (filter (\<lambda>(k, p). status p = ALIVE) (players g))
          then Some (g, False)
          else
            (let vote_count = tally (map snd lv) [];
                 g1 = (if vote_count = [] then g
                       else case vote_candidates vote_count of
                              [exiled_number] \<Rightarrow> exile g exiled_number
                            | _ \<Rightarrow> g)
             in if hunter_pending g1 then Some (g1\<lparr>phase := HUNTER_REVENGE\<rparr>, True)
                else Some (g1\<lparr>phase := NIGHT, day_count := day_count g1 + 1, votes := [],
                              night_actions := Map.empty, witch_save_candidates := [],
                              witch_used_save_this_night := False,
                              witch_used_poison_this_night := False\<rparr>, True)))"

section \<open>The command handlers\<close>

text \<open>
  What a command answers: \<open>Accepted\<close> where the source returns \<^verbatim>\<open>True\<close>, and
  otherwise one value per reason for which the source returns \<^verbatim>\<open>False\<close>: the user
  is in no room, the caller is not a player of the room, the caller is out (dead or
  exiled), the verb is not legal in the witch's phase, in the day, in the hunter's phase
  or in the current phase, the caller is not the hunter, the white wolf or the witch,
  the target is missing, is not a living seat or is not a number, the seat to save is not
  a candidate, the role has no night action, the verb is not the role's, the antidote is
  not ready during collection, the poison is used up, the command fell through, the user
  has an unfinished game, the message is not from a group, the room id is missing, the
  join failed, the caller is not the host, the room could not be destroyed or started,
  and the reasons of the settings command.
\<close>

datatype Reply =
  Accepted | UserNotInAnyGame | PlayerNotInGame | PlayerOut | WitchPhaseOnly | DayOnly
  | HunterPhaseOnly | WrongPhase | NotHunter | NotWhiteWolf | NotWitch | NoTarget
  | TargetInvalid | TargetNotNumber | SaveTargetInvalid | NoNightAction | CommandMismatch
  | SaveNotReady | NoPoison | Unhandled | HasUnfinishedGame | NotGroupChat | NoRoomId
  | JoinFailed | NotHost | DestroyFailed | StartFailed | SettingsMalformed
  | PlayerCountOutOfRange | UnknownRole | NegativeCount | UnknownSetting

text \<open>\<^verbatim>\<open>str\<close> of an integer, for the action text \<^verbatim>\<open>f"{target1} {target2}"\<close>.\<close>

definition digit_char :: "nat \<Rightarrow> char" where
  "digit_char d = ''0123456789'' ! d"

function string_of_nat :: "nat \<Rightarrow> string" where
  "string_of_nat n =
     (if n < 10 then [digit_char n] else string_of_nat (n div 10) @ [digit_char (n mod 10)])"
  by pat_completeness auto
termination
  by (relation "measure id") auto

definition str_int :: "int \<Rightarrow> string" where
  "str_int i = (if i < 0 then CHR ''-'' # string_of_nat (nat (- i)) else string_of_nat (nat i))"

text \<open>
  A handler works on the room of the caller and returns the room, whether the game ended
  in it, and the reply.
\<close>

definition handle_hunter_action :: "Game \<Rightarrow> string \<times> Player \<Rightarrow> string \<Rightarrow> Game \<times> bool \<times> Reply" where
  "handle_hunter_action g kp args =
     (case kp of (pk, player) \<Rightarrow>
        if role player \<noteq> Some hunter then (g, False, NotHunter)
        else if args = [] then (g, False, NoTarget)
        else
          (case py_int args of
             None \<Rightarrow> (g, False, TargetNotNumber)
           | Some target_num \<Rightarrow>
               (case get_player_by_number g target_num of
                  None \<Rightarrow> (g, False, TargetInvalid)
                | Some (tk, target_player) \<Rightarrow>
                    if status target_player \<noteq> ALIVE then (g, False, TargetInvalid)
                    else
                      (let g1 = upd_player tk
                                  (\<lambda>p. p\<lparr>status := DEAD, death_reason := Some HUNTER_SHOOT,
                                         killer := Some (qq player)\<rparr>) g
                       in (g1\<lparr>phase := NIGHT, day_count := day_count g1 + 1, votes := [],
                              night_actions := Map.empty\<rparr>, False, Accepted)))))"

definition handle_white_wolf_action :: "Game \<Rightarrow> string \<times> Player \<Rightarrow> string \<Rightarrow> Game \<times> bool \<times> Reply" where
  "handle_white_wolf_action g kp args =
     (case kp of (pk, player) \<Rightarrow>
        if role player \<noteq> Some white_wolf then (g, False, NotWhiteWolf)
        else if args = [] then (g, False, NoTarget)
        else
          (case py_int args of
             None \<Rightarrow> (g, False, TargetNotNumber)
           | Some target_num \<Rightarrow>
               (case get_player_by_number g target_num of
                  None \<Rightarrow> (g, False, TargetInvalid)
                | Some (tk, target_player) \<Rightarrow>
                    if status target_player \<noteq> ALIVE then (g, False, TargetInvalid)
                    else
                      (let g1 = upd_player pk
                                  (\<lambda>p. p\<lparr>status := DEAD, death_reason := Some WHITE_WOLF,
                                         killer := Some (qq player)\<rparr>) g;
                           g2 = upd_player tk
                                  (\<lambda>p. p\<lparr>status := DEAD, death_reason := Some WHITE_WOLF,
                                         killer := Some (qq player)\<rparr>) g1
                       in (g2\<lparr>white_wolf_exploded := True, phase := NIGHT,
                              day_count := day_count g2 + 1, votes := [],
                              night_actions := Map.empty\<rparr>, False, Accepted)))))"

definition handle_vote_action :: "Game \<Rightarrow> string \<times> Player \<Rightarrow> string \<Rightarrow> (Game \<times> bool \<times> Reply) option" where
  "handle_vote_action g kp args =
     (case kp of (pk, player) \<Rightarrow>
        if args = [] then Some (g, False, NoTarget)
        else
          (case py_int args of
             None \<Rightarrow> Some (g, False, TargetNotNumber)
           | Some vote_target \<Rightarrow>
               (case get_player_by_number g vote_target of
                  None \<Rightarrow> Some (g, False, TargetInvalid)
                | Some (tk, target_player) \<Rightarrow>
                    if status target_player \<noteq> ALIVE then Some (g, False, TargetInvalid)
                    else
                      (case process_vote
                              (g\<lparr>votes := AList.update (qq player) vote_target (votes g)\<rparr>) of
                         None \<Rightarrow> None
                       | Some (g1, _) \<Rightarrow> Some (g1, False, Accepted)))))"

definition handle_witch_save_action :: "Game \<Rightarrow> string \<times> Player \<Rightarrow> string \<Rightarrow> (Game \<times> bool \<times> Reply) option" where
  "handle_witch_save_action g kp args =
     (case kp of (pk, player) \<Rightarrow>
        if role player \<noteq> Some witch then Some (g, False, NotWitch)
        else if args = [] then Some (g, False, NoTarget)
        else
          (case py_int args of
             None \<Rightarrow> Some (g, False, TargetNotNumber)
           | Some target_num \<Rightarrow>
               if target_num \<notin> set (map fst (witch_save_candidates g))
               then Some (g, False, SaveTargetInvalid)
               else
                 (case process_witch_save_phase
                         (g\<lparr>night_actions := (night_actions g)(''witch_save'' \<mapsto> args)\<rparr>) of
                    None \<Rightarrow> None
                  | Some (g1, ended) \<Rightarrow> Some (g1, ended, Accepted))))"

definition handle_witch_skip_action :: "Game \<Rightarrow> string \<times> Player \<Rightarrow> (Game \<times> bool \<times> Reply) option" where
  "handle_witch_skip_action g kp =
     (case kp of (pk, player) \<Rightarrow>
        if role player \<noteq> Some witch then Some (g, False, NotWitch)
        else
          (case process_witch_save_phase
                  (g\<lparr>night_actions := (night_actions g)(''witch_skip'' \<mapsto> ''true'')\<rparr>) of
             None \<Rightarrow> None
           | Some (g1, ended) \<Rightarrow> Some (g1, ended, Accepted)))"

text \<open>
  \<^verbatim>\<open>_handle_night_action\<close>. The caller's role is looked up in \<^verbatim>\<open>ROLES\<close> first, which
  raises KeyError for a player without a role.
\<close>

definition record_night_action :: "Game \<Rightarrow> string \<Rightarrow> string \<Rightarrow> string \<Rightarrow> (Game \<times> bool \<times> Reply) option" where
  "record_night_action g pk key text =
     (case process_night_actions
             (upd_player pk (\<lambda>p. p\<lparr>has_acted := True\<rparr>)
                (g\<lparr>night_actions := (night_actions g)(key \<mapsto> text)\<rparr>)) of
        None \<Rightarrow> None
      | Some (g1, ended) \<Rightarrow> Some (g1, ended, Accepted))"

definition valid_target :: "Game \<Rightarrow> int \<Rightarrow> bool" where
  "valid_target g n =
     (case get_player_by_number g n of None \<Rightarrow> False | Some (k, p) \<Rightarrow> status p = ALIVE)"

definition handle_night_action ::
  "Game \<Rightarrow> string \<times> Player \<Rightarrow> string \<Rightarrow> string \<Rightarrow> (Game \<times> bool \<times> Reply) option" where
  "handle_night_action g kp action args =
     (case kp of (pk, player) \<Rightarrow>
        (case role player of
           None \<Rightarrow> None
         | Some r \<Rightarrow>
             if \<not> ROLES_night_action r then Some (g, False, NoNightAction)
             else if Some action \<noteq> ROLES_command r
                     \<and> \<not> (r = witch \<and> (action = ''save'' \<or> action = ''poison''))
               then Some (g, False, CommandMismatch)
             else if r = witch then
               (if action = ''save'' then Some (g, False, SaveNotReady)
                else if action = ''poison'' then
                  (if witch_status g \<noteq> HAS_BOTH \<and> witch_status g \<noteq> HAS_POISON_ONLY
                     then Some (g, False, NoPoison)
                   else if args = [] then Some (g, False, NoTarget)
                   else
                     (case py_int args of
                        None \<Rightarrow> Some (g, False, TargetNotNumber)
                      | Some target_num \<Rightarrow>
                          if \<not> valid_target g target_num then Some (g, False, TargetInvalid)
                          else record_night_action g pk ''witch_poison'' args))
                else Some (g, False, Unhandled))
             else if args = [] then Some (g, False, NoTarget)
             else if action = ''swap'' \<or> action = ''choose'' then
               (case py_split args of
                  s1 # s2 # _ \<Rightarrow>
                    (case py_int s1 of
                       None \<Rightarrow> Some (g, False, TargetNotNumber)
                     | Some target1 \<Rightarrow>
                         (case py_int s2 of
                            None \<Rightarrow> Some (g, False, TargetNotNumber)
                          | Some target2 \<Rightarrow>
                              if \<not> valid_target g target1 then Some (g, False, TargetInvalid)
                              else if \<not> valid_target g target2 then Some (g, False, TargetInvalid)
                              else record_night_action g pk (get_role_action_key r)
                                     (str_int target1 @ '' '' @ str_int target2)))
                | _ \<Rightarrow> Some (g, False, NoTarget))
             else
               (case py_int args of
                  None \<Rightarrow> Some (g, False, TargetNotNumber)
                | Some target_num \<Rightarrow>
                    if \<not> valid_target g target_num then Some (g, False, TargetInvalid)
                    else record_night_action g pk (get_role_action_key r) args)))"

section \<open>The command router\<close>

text \<open>
  The methods of \<^verbatim>\<open>WerewolfGameCommand\<close>. Its \<^verbatim>\<open>_host_game\<close>, \<^verbatim>\<open>_join_game\<close>,
  \<^verbatim>\<open>_start_game\<close> and \<^verbatim>\<open>_destroy_game\<close> carry the suffix \<open>_cmd\<close> here, since the
  manager's methods own the plain names; the user of a command is the sender of the
  message.
\<close>

definition find_user_game :: "Manager \<Rightarrow> string \<Rightarrow> string option" where
  "find_user_game m user_id =
     map_option fst (find (\<lambda>(rid, g). user_id \<in> fst ` set (players g)) (games m))"

definition has_unfinished_game :: "Manager \<Rightarrow> string \<Rightarrow> bool" where
  "has_unfinished_game m user_id \<longleftrightarrow>
     list_ex (\<lambda>(rid, g). user_id \<in> fst ` set (players g) \<and> phase g \<noteq> ENDED) (games m)"

text \<open>
  \<^verbatim>\<open>archive_game\<close> and \<^verbatim>\<open>destroy_game\<close> both take the room out of the live rooms; the
  profile statistics and the files they touch are not modelled.
\<close>

definition archive_game :: "Manager \<Rightarrow> string \<Rightarrow> Manager" where
  "archive_game m rid = m\<lparr>games := AList.delete rid (games m)\<rparr>"

definition destroy_game :: "Manager \<Rightarrow> string \<Rightarrow> Manager \<times> bool" where
  "destroy_game m rid =
     (if map_of (games m) rid = None then (m, False)
      else (m\<lparr>games := AList.delete rid (games m)\<rparr>, True))"

text \<open>
  The room is one object shared with the manager: what a handler did to it is seen in
  the live rooms, unless the win check archived it.
\<close>

definition settle :: "Manager \<Rightarrow> string \<Rightarrow> Game \<Rightarrow> bool \<Rightarrow> Manager" where
  "settle m rid g ended =
     (if ended then archive_game m rid
      else m\<lparr>games := AList.update rid g (games m)\<rparr>)"

definition destroy_game_cmd :: "Manager \<Rightarrow> string \<Rightarrow> (Manager \<times> Reply) option" where
  "destroy_game_cmd m user_id =
     (case find_user_game m user_id of
        None \<Rightarrow> Some (m, UserNotInAnyGame)
      | Some rid \<Rightarrow>
          (case map_of (games m) rid of
             None \<Rightarrow> None
           | Some g \<Rightarrow>
               if host g \<noteq> user_id then Some (m, NotHost)
               else (case destroy_game m rid of
                       (m1, True) \<Rightarrow> Some (m1, Accepted)
                     | (m1, False) \<Rightarrow> Some (m1, DestroyFailed))))"

definition handle_game_action :: "Manager \<Rightarrow> string \<Rightarrow> string \<Rightarrow> string \<Rightarrow> (Manager \<times> Reply) option" where
  "handle_game_action m user_id action args =
     (if action = ''destroy'' then destroy_game_cmd m user_id
      else
        (case find_user_game m user_id of
           None \<Rightarrow> Some (m, UserNotInAnyGame)
         | Some rid \<Rightarrow>
             (case map_of (games m) rid of
                None \<Rightarrow> None
              | Some g \<Rightarrow>
                  (case map_of (players g) user_id of
                     None \<Rightarrow> Some (m, PlayerNotInGame)
                   | Some player \<Rightarrow>
                       if status player \<noteq> ALIVE then Some (m, PlayerOut)
                       else
                         (case
                            (if phase g = WITCH_SAVE_PHASE then
                               (if action = ''save''
                                  then handle_witch_save_action g (user_id, player) args
                                else if action = ''skip''
                                  then handle_witch_skip_action g (user_id, player)
                                else Some (g, False, WitchPhaseOnly))
                             else if phase g = NIGHT
                               then handle_night_action g (user_id, player) action args
                             else if phase g = DAY then
                               (if action = ''vote''
                                  then handle_vote_action g (user_id, player) args
                                else if action = ''explode''
                                  then Some (handle_white_wolf_action g (user_id, player) args)
                                else Some (g, False, DayOnly))
                             else if phase g = HUNTER_REVENGE then
                               (if action = ''shoot''
                                  then Some (handle_hunter_action g (user_id, player) args)
                                else Some (g, False, HunterPhaseOnly))
                             else Some (g, False, WrongPhase)) of
                            None \<Rightarrow> None
                          | Some (g1, ended, reply) \<Rightarrow> Some (settle m rid g1 ended, reply))))))"

text \<open>
  The display name of a user: the profile's name, or the two characters of the default
  (as UTF-8 bytes) followed by the first five characters of the identity.
\<close>

definition get_user_nickname :: "Manager \<Rightarrow> string \<Rightarrow> string" where
  "get_user_nickname m user_id =
     (case player_profiles m user_id of
        Some n \<Rightarrow>
          if n \<noteq> [] then n
          else [CHR 0xE7, CHR 0x8E, CHR 0xA9, CHR 0xE5, CHR 0xAE, CHR 0xB6] @ take 5 user_id
      | None \<Rightarrow> [CHR 0xE7, CHR 0x8E, CHR 0xA9, CHR 0xE5, CHR 0xAE, CHR 0xB6] @ take 5 user_id)"

text \<open>
  \<^verbatim>\<open>_host_game\<close>: \<open>grp\<close> is the group of the message, if it came from one, and \<open>rid\<close>
  the room id made from the clock.
\<close>

definition host_game_cmd :: "Manager \<Rightarrow> string \<Rightarrow> string option \<Rightarrow> string \<Rightarrow> Manager \<times> Reply" where
  "host_game_cmd m user_id grp rid =
     (if has_unfinished_game m user_id then (m, HasUnfinishedGame)
      else case grp of
             None \<Rightarrow> (m, NotGroupChat)
           | Some gid \<Rightarrow>
               (fst (create_game m rid user_id gid (get_user_nickname m user_id)), Accepted))"

definition join_game_cmd :: "Manager \<Rightarrow> string \<Rightarrow> string \<Rightarrow> Manager \<times> Reply" where
  "join_game_cmd m user_id args =
     (if args = [] then (m, NoRoomId)
      else if has_unfinished_game m user_id then (m, HasUnfinishedGame)
      else case join_game m (strip args) user_id (get_user_nickname m user_id) of
             (m1, True) \<Rightarrow> (m1, Accepted)
           | (m1, False) \<Rightarrow> (m1, JoinFailed))"

definition start_game_cmd :: "(nat \<Rightarrow> nat) \<Rightarrow> Manager \<Rightarrow> string \<Rightarrow> (Manager \<times> Reply) option" where
  "start_game_cmd rnd m user_id =
     (case find_user_game m user_id of
        None \<Rightarrow> Some (m, UserNotInAnyGame)
      | Some rid \<Rightarrow>
          (case map_of (games m) rid of
             None \<Rightarrow> None
           | Some g \<Rightarrow>
               if host g \<noteq> user_id then Some (m, NotHost)
               else (case start_game rnd m rid of
                       None \<Rightarrow> None
                     | Some (m1, True) \<Rightarrow> Some (m1, Accepted)
                     | Some (m1, False) \<Rightarrow> Some (m1, StartFailed))))"

definition role_of_key :: "string \<Rightarrow> Role option" where
  "role_of_key =
     map_of [(''villager'', villager), (''seer'', seer), (''witch'', witch), (''hunter'', hunter),
             (''wolf'', wolf), (''hidden_wolf'', hidden_wolf), (''guard'', guard),
             (''magician'', magician), (''double_faced'', double_faced),
             (''spiritualist'', spiritualist), (''successor'', successor),
             (''painter'', painter), (''white_wolf'', white_wolf), (''cupid'', cupid)]"

definition handle_settings :: "Manager \<Rightarrow> string \<Rightarrow> string \<Rightarrow> (Manager \<times> Reply) option" where
  "handle_settings m user_id args =
     (case py_split args of
        setting_type # val # rest \<Rightarrow>
          (case find_user_game m user_id of
             None \<Rightarrow> Some (m, UserNotInAnyGame)
           | Some rid \<Rightarrow>
               (case map_of (games m) rid of
                  None \<Rightarrow> None
                | Some g \<Rightarrow>
                    if host g \<noteq> user_id then Some (m, NotHost)
                    else if phase g \<noteq> SETUP then Some (m, WrongPhase)
                    else if setting_type = ''players'' then
                      (case py_int val of
                         None \<Rightarrow> Some (m, TargetNotNumber)
                       | Some n \<Rightarrow>
                           if n < 6 \<or> n > 18 then Some (m, PlayerCountOutOfRange)
                           else Some (settle m rid (g\<lparr>player_count := n\<rparr>) False, Accepted))
                    else if setting_type = ''roles'' then
                      (case rest of
                         [] \<Rightarrow> Some (m, SettingsMalformed)
                       | count_text # _ \<Rightarrow>
                           (case role_of_key val of
                              None \<Rightarrow> Some (m, UnknownRole)
                            | Some role_key \<Rightarrow>
                                (case py_int count_text of
                                   None \<Rightarrow> Some (m, TargetNotNumber)
                                 | Some role_count \<Rightarrow>
                                     if role_count < 0 then Some (m, NegativeCount)
                                     else Some (settle m rid
                                                 (g\<lparr>roles := AList.update role_key role_count (roles g)\<rparr>)
                                                 False, Accepted))))
                    else Some (m, UnknownSetting)))
      | _ \<Rightarrow> Some (m, SettingsMalformed))"

section \<open>Well-formed rooms and managers\<close>

text \<open>
  What \<^verbatim>\<open>create_game\<close>, \<^verbatim>\<open>join_game\<close> and the settings command keep true of a room:
  \<open>player_order\<close> lists the keys of \<open>players\<close> in their order, a dictionary has
  each key once, and no configured role count is negative.
\<close>

definition wf_room :: "Game \<Rightarrow> bool" where
  "wf_room g \<longleftrightarrow>
     player_order g = map fst (players g) \<and> distinct (map fst (players g))
     \<and> distinct (map fst (roles g)) \<and> list_all (\<lambda>(r, c). 0 \<le> c) (roles g)"

text \<open>The configured number of seats of a role.\<close>

definition configured :: "Game \<Rightarrow> Role \<Rightarrow> nat" where
  "configured g r = (case map_of (roles g) r of None \<Rightarrow> 0 | Some c \<Rightarrow> nat c)"




section \<open>Sessions of commands\<close>

text \<open>
  A session is a list of commands, each handled by its handler on the manager the
  previous one left; it is only defined when every command was accepted.
\<close>

fun run_steps :: "(Manager \<Rightarrow> (Manager \<times> Reply) option) list \<Rightarrow> Manager \<Rightarrow> Manager option" where
  "run_steps [] m = Some m"
| "run_steps (f # fs) m =
     (case f m of Some (m1, Accepted) \<Rightarrow> run_steps fs m1 | _ \<Rightarrow> None)"

definition empty_manager :: Manager where
  "empty_manager = \<lparr>games = [], player_profiles = Map.empty\<rparr>"

definition host_step :: "string \<Rightarrow> string \<Rightarrow> string \<Rightarrow> Manager \<Rightarrow> (Manager \<times> Reply) option" where
  "host_step u gid rid m = Some (host_game_cmd m u (Some gid) rid)"

definition join_step :: "string \<Rightarrow> string \<Rightarrow> Manager \<Rightarrow> (Manager \<times> Reply) option" where
  "join_step u rid m = Some (join_game_cmd m u rid)"

definition settings_step :: "string \<Rightarrow> string \<Rightarrow> Manager \<Rightarrow> (Manager \<times> Reply) option" where
  "settings_step u args m = handle_settings m u args"

text \<open>The deal of a session draws \<open>i\<close> at position \<open>i\<close>, which leaves the role list in
  the order of the settings.\<close>

definition start_step :: "string \<Rightarrow> Manager \<Rightarrow> (Manager \<times> Reply) option" where
  "start_step u m = start_game_cmd (\<lambda>i. i) m u"

definition act :: "string \<Rightarrow> string \<Rightarrow> string \<Rightarrow> Manager \<Rightarrow> (Manager \<times> Reply) option" where
  "act u verb args m = handle_game_action m u verb args"

text \<open>What is looked at after a session. Per seat: number, role, status, cause of
  death, killer, lover flag, partner and flipped camp. Per live room: phase, day, winner,
  the guard's recorded action and the wolves', the protected seat, the guard's last
  target, the seats of the witch's candidate list, and the seats.\<close>

definition seat_view ::
  "string \<times> Player \<Rightarrow>
     int \<times> Role option \<times> PlayerStatus \<times> DeathReason option \<times> string option \<times> bool
       \<times> string option \<times> Camp option" where
  "seat_view kp =
     (case kp of (k, p) \<Rightarrow>
        (number p, role p, status p, death_reason p, killer p, is_lover p, lover_partner p,
         camp p))"

definition room_view ::
  "Game \<Rightarrow>
     GamePhase \<times> int \<times> string option \<times> string option \<times> string option \<times> int option
       \<times> int option \<times> int list
       \<times> (int \<times> Role option \<times> PlayerStatus \<times> DeathReason option \<times> string option \<times> bool
           \<times> string option \<times> Camp option) list" where
  "room_view g =
     (phase g, day_count g, winner g, night_actions g ''guard'', night_actions g ''wolf_kill'',
      guard_protected g, last_guard_target g, map fst (witch_save_candidates g),
      map seat_view (players g))"

definition rooms_view :: "Manager \<Rightarrow> (string \<times> _) list" where
  "rooms_view m = map (\<lambda>(rid, g). (rid, room_view g)) (games m)"

definition standing :: "Manager option \<Rightarrow> (string \<times> _) list option" where
  "standing r = map_option rooms_view r"

definition outcome :: "(Manager \<times> Reply) option \<Rightarrow> (Reply \<times> (string \<times> _) list) option" where
  "outcome r = map_option (\<lambda>(m, reply). (reply, rooms_view m)) r"

text \<open>The counters of the evaluator over each live room, and the winner it would record
  if it were called there (\<open>None\<close> when the game goes on).\<close>

definition census :: "Manager option \<Rightarrow> (string \<times> (nat \<times> nat \<times> nat \<times> nat) option) list option" where
  "census r = map_option (\<lambda>m. map (\<lambda>(rid, g). (rid, count_camps (players g))) (games m)) r"

definition verdict :: "Manager option \<Rightarrow> (string \<times> string option option) list option" where
  "verdict r =
     map_option (\<lambda>m. map (\<lambda>(rid, g). (rid, map_option (\<lambda>(g1, ended). winner g1) (check_game_end g)))
                       (games m)) r"

text \<open>Six users at one table: the host \<open>1001\<close> and five who join.\<close>

definition table_of_six :: "(Manager \<Rightarrow> (Manager \<times> Reply) option) list" where
  "table_of_six =
     [host_step ''1001'' ''g1'' ''R1'', join_step ''1002'' ''R1'', join_step ''1003'' ''R1'',
      join_step ''1004'' ''R1'', join_step ''1005'' ''R1'', join_step ''1006'' ''R1'']"

text \<open>Roles villager 2, seer, witch, hunter, wolf (seats 1 to 6 in this order); in the
  first night the seer checks seat 6, the wolf attacks seat 1 and the witch keeps her
  antidote.\<close>

definition first_night :: "(Manager \<Rightarrow> (Manager \<times> Reply) option) list" where
  "first_night =
     table_of_six @
     [settings_step ''1001'' ''roles wolf 1'', start_step ''1001'',
      act ''1003'' ''check'' ''6'', act ''1006'' ''kill'' ''1'', act ''1004'' ''skip'' []]"

text \<open>The five survivors then vote: all against the wolf at seat 6, who votes last
  (against seat 2).\<close>

definition wolf_vote_pending :: "(Manager \<Rightarrow> (Manager \<times> Reply) option) list" where
  "wolf_vote_pending =
     first_night @
     [act ''1002'' ''vote'' ''6'', act ''1003'' ''vote'' ''6'', act ''1004'' ''vote'' ''6'',
      act ''1005'' ''vote'' ''6'']"

definition wolf_voted_out :: "(Manager \<Rightarrow> (Manager \<times> Reply) option) list" where
  "wolf_voted_out = wolf_vote_pending @ [act ''1006'' ''vote'' ''2'']"

text \<open>Or all against the hunter at seat 5 (who votes 6).\<close>

definition hunter_voted_out :: "(Manager \<Rightarrow> (Manager \<times> Reply) option) list" where
  "hunter_voted_out =
     first_night @
     [act ''1002'' ''vote'' ''5'', act ''1003'' ''vote'' ''5'', act ''1004'' ''vote'' ''5'',
      act ''1006'' ''vote'' ''5'', act ''1005'' ''vote'' ''6'']"

text \<open>Roles villager 2, seer, hunter 2, wolf: the wolf kills seat 1 in the first night, the
  day votes the hunter at seat 4 out, and the living hunter at seat 5 shoots the wolf.\<close>

definition second_hunter_shoots :: "(Manager \<Rightarrow> (Manager \<times> Reply) option) list" where
  "second_hunter_shoots =
     table_of_six @
     [settings_step ''1001'' ''roles wolf 1'', settings_step ''1001'' ''roles witch 0'',
      settings_step ''1001'' ''roles hunter 2'', start_step ''1001'',
      act ''1003'' ''check'' ''6'', act ''1006'' ''kill'' ''1'',
      act ''1002'' ''vote'' ''4'', act ''1003'' ''vote'' ''4'', act ''1005'' ''vote'' ''4'',
      act ''1006'' ''vote'' ''4'', act ''1004'' ''vote'' ''6'',
      act ''1005'' ''shoot'' ''6'']"

text \<open>Roles villager 3, seer, hunter, white wolf: nobody dies in the first night, and in
  the day the white wolf at seat 6 explodes on seat 1.\<close>

definition white_wolf_explodes :: "(Manager \<Rightarrow> (Manager \<times> Reply) option) list" where
  "white_wolf_explodes =
     table_of_six @
     [settings_step ''1001'' ''roles wolf 0'', settings_step ''1001'' ''roles witch 0'',
      settings_step ''1001'' ''roles white_wolf 1'', settings_step ''1001'' ''roles villager 3'',
      start_step ''1001'',
      act ''1004'' ''check'' ''6'',
      act ''1006'' ''explode'' ''1'']"

text \<open>Roles villager 2, seer, hunter, wolf, cupid: cupid pairs seats 1 and 2 in the
  first night. Either the wolf kills the lover at seat 1 in that night, or the wolf
  kills the seer at seat 3 and the day votes the lover at seat 1 out.\<close>

definition lovers_paired :: "(Manager \<Rightarrow> (Manager \<times> Reply) option) list" where
  "lovers_paired =
     table_of_six @
     [settings_step ''1001'' ''roles wolf 1'', settings_step ''1001'' ''roles witch 0'',
      settings_step ''1001'' ''roles cupid 1'', start_step ''1001'',
      act ''1006'' ''choose'' ''1 2'', act ''1003'' ''check'' ''5'']"

definition lover_killed_at_night :: "(Manager \<Rightarrow> (Manager \<times> Reply) option) list" where
  "lover_killed_at_night = lovers_paired @ [act ''1005'' ''kill'' ''1'']"

definition lover_voted_out :: "(Manager \<Rightarrow> (Manager \<times> Reply) option) list" where
  "lover_voted_out =
     lovers_paired @
     [act ''1005'' ''kill'' ''3'',
      act ''1001'' ''vote'' ''2'', act ''1002'' ''vote'' ''1'', act ''1004'' ''vote'' ''1'',
      act ''1005'' ''vote'' ''1'', act ''1006'' ''vote'' ''1'']"

text \<open>Roles villager 2, seer, hunter, wolf, double-faced: the wolf attacks the
  double-faced seat 6 in the first night, the day votes seat 1 out, and the wolf kills
  seat 2 in the second night.\<close>

definition double_faced_flipped :: "(Manager \<Rightarrow> (Manager \<times> Reply) option) list" where
  "double_faced_flipped =
     table_of_six @
     [settings_step ''1001'' ''roles wolf 1'', settings_step ''1001'' ''roles witch 0'',
      settings_step ''1001'' ''roles double_faced 1'', start_step ''1001'',
      act ''1003'' ''check'' ''5'', act ''1005'' ''kill'' ''6'',
      act ''1001'' ''vote'' ''2'', act ''1002'' ''vote'' ''1'', act ''1003'' ''vote'' ''1'',
      act ''1004'' ''vote'' ''1'', act ''1005'' ''vote'' ''1'', act ''1006'' ''vote'' ''1'',
      act ''1003'' ''check'' ''6'', act ''1005'' ''kill'' ''2'']"

text \<open>Roles villager, seer, witch, hunter, wolf, guard: in the first night the guard
  protects seat 1, the seer checks seat 5, and last the wolf attacks seat 1.\<close>

definition guard_and_seer_acted :: "(Manager \<Rightarrow> (Manager \<times> Reply) option) list" where
  "guard_and_seer_acted =
     table_of_six @
     [settings_step ''1001'' ''roles wolf 1'', settings_step ''1001'' ''roles villager 1'',
      settings_step ''1001'' ''roles guard 1'', start_step ''1001'',
      act ''1006'' ''guard'' ''1'', act ''1002'' ''check'' ''5'']"

definition guarded_target :: "(Manager \<Rightarrow> (Manager \<times> Reply) option) list" where
  "guarded_target = guard_and_seer_acted @ [act ''1005'' ''kill'' ''1'']"

text \<open>Roles villager 2, seer, hunter, wolf, guard: the guard protects seat 1 in the
  first night (the wolf kills seat 2) and the day's vote is tied between seats 1 and 3.\<close>

definition tie_pending :: "(Manager \<Rightarrow> (Manager \<times> Reply) option) list" where
  "tie_pending =
     table_of_six @
     [settings_step ''1001'' ''roles wolf 1'', settings_step ''1001'' ''roles witch 0'',
      settings_step ''1001'' ''roles guard 1'', start_step ''1001'',
      act ''1006'' ''guard'' ''1'', act ''1003'' ''check'' ''5'', act ''1005'' ''kill'' ''2'',
      act ''1001'' ''vote'' ''3'', act ''1003'' ''vote'' ''1'', act ''1004'' ''vote'' ''1'',
      act ''1005'' ''vote'' ''3'']"

definition guard_first_cycle :: "(Manager \<Rightarrow> (Manager \<times> Reply) option) list" where
  "guard_first_cycle = tie_pending @ [act ''1006'' ''vote'' ''5'']"

text \<open>In the second night the guard names seat 1 again and the wolf attacks seat 1.\<close>

definition guard_repeats :: "(Manager \<Rightarrow> (Manager \<times> Reply) option) list" where
  "guard_repeats =
     guard_first_cycle @
     [act ''1006'' ''guard'' ''1'', act ''1003'' ''check'' ''5'', act ''1005'' ''kill'' ''1'']"

text \<open>Eight users fill a room that keeps its default settings.\<close>

definition table_of_eight :: "(Manager \<Rightarrow> (Manager \<times> Reply) option) list" where
  "table_of_eight = table_of_six @ [join_step ''1007'' ''R1'', join_step ''1008'' ''R1'']"

section \<open>Rooms and managers met in the sessions\<close>

definition room_of :: "Manager option \<Rightarrow> string \<Rightarrow> Game" where
  "room_of r rid = the (map_of (games (the r)) rid)"



text \<open>The room in which \<^verbatim>\<open>_handle_night_action\<close> has just recorded the wolf's attack on
  seat 1, as it is handed to \<^verbatim>\<open>process_night_actions\<close>.\<close>

definition wolf_action_recorded :: Game where
  "wolf_action_recorded =
     (let g = room_of (run_steps guard_and_seer_acted empty_manager) ''R1''
      in upd_player ''1005'' (\<lambda>p. p\<lparr>has_acted := True\<rparr>)
           (g\<lparr>night_actions := (night_actions g)(''wolf_kill'' \<mapsto> ''1'')\<rparr>))"


definition six_ready :: Manager where
  "six_ready = the (run_steps (table_of_six @ [settings_step ''1001'' ''roles wolf 1'']) empty_manager)"

definition eight_seated :: Manager where
  "eight_seated = the (run_steps table_of_eight empty_manager)"

definition witch_deciding :: Manager where
  "witch_deciding = the (run_steps guarded_target empty_manager)"

text \<open>The entry of a seat after the deal gave it role \<open>r\<close>.\<close>

definition deal :: "(string \<times> Player) \<Rightarrow> Role \<Rightarrow> (string \<times> Player)" where
  "deal kp r = (fst kp, (snd kp)\<lparr>role := Some r, original_role := Some r\<rparr>)"

section \<open>General facts\<close>

lemma some_the: "\<not> Option.is_none x \<Longrightarrow> x = Some (the x)"
  by (cases x) auto

section \<open>C1: the win check after a death\<close>

text \<open>
  C1 says that the win-condition evaluator runs after every death-causing event: the
  vote's exile, the hunter's shot and the white wolf's explosion as well as the night.
  Only night resolution calls it. In the session \<open>wolf_voted_out\<close> the only wolf is
  exiled by the vote, in \<open>second_hunter_shoots\<close> it is shot by a hunter, and in
  \<open>white_wolf_explodes\<close> the only wolf blows itself up: each time the evaluator would
  record the village as winner over the survivors, and yet the room is still live, in
  the next night (day 2), with no winner.
\<close>

theorem C1_vote_exile_without_win_check:
  "standing (run_steps wolf_voted_out empty_manager) =
     Some [(''R1'', NIGHT, 2, None, None, None, None, None, [],
        [(1, Some villager, DEAD, Some WOLF_KILL, Some ''wolf'', False, None, None),
         (2, Some villager, ALIVE, None, None, False, None, None),
         (3, Some seer, ALIVE, None, None, False, None, None),
         (4, Some witch, ALIVE, None, None, False, None, None),
         (5, Some hunter, ALIVE, None, None, False, None, None),
         (6, Some wolf, EXILED, Some VOTE_REASON, None, False, None, None)])]
   \<and> verdict (run_steps wolf_voted_out empty_manager) = Some [(''R1'', Some (Some ''village''))]
   \<and> standing (run_steps second_hunter_shoots empty_manager) =
     Some [(''R1'', NIGHT, 2, None, None, None, None, None, [],
        [(1, Some villager, DEAD, Some WOLF_KILL, Some ''wolf'', False, None, None),
         (2, Some villager, ALIVE, None, None, False, None, None),
         (3, Some seer, ALIVE, None, None, False, None, None),
         (4, Some hunter, EXILED, Some VOTE_REASON, None, False, None, None),
         (5, Some hunter, ALIVE, None, None, False, None, None),
         (6, Some wolf, DEAD, Some HUNTER_SHOOT, Some ''1005'', False, None, None)])]
   \<and> verdict (run_steps second_hunter_shoots empty_manager) = Some [(''R1'', Some (Some ''village''))]
   \<and> standing (run_steps white_wolf_explodes empty_manager) =
     Some [(''R1'', NIGHT, 2, None, None, None, None, None, [],
        [(1, Some villager, DEAD, Some WHITE_WOLF, Some ''1006'', False, None, None),
         (2, Some villager, ALIVE, None, None, False, None, None),
         (3, Some villager, ALIVE, None, None, False, None, None),
         (4, Some seer, ALIVE, None, None, False, None, None),
         (5, Some hunter, ALIVE, None, None, False, None, None),
         (6, Some white_wolf, DEAD, Some WHITE_WOLF, Some ''1006'', False, None, None)])]
   \<and> verdict (run_steps white_wolf_explodes empty_manager) = Some [(''R1'', Some (Some ''village''))]"
  by code_simp

section \<open>C2: the hunter's revenge\<close>

text \<open>
  C2 says that in HUNTER_REVENGE the shot of the dead or exiled hunter is accepted. In
  the session \<open>hunter_voted_out\<close> the hunter at seat 5 is exiled and the room waits in
  HUNTER_REVENGE; the hunter's \<^verbatim>\<open>shoot 6\<close> is then turned down because the hunter is
  not alive (the router's test comes before the phase is looked at), and seat 6 stays
  alive.
\<close>

theorem C2_exiled_hunter_shot_rejected:
  "standing (run_steps hunter_voted_out empty_manager) =
     Some [(''R1'', HUNTER_REVENGE, 1, None, None, None, None, None, [],
        [(1, Some villager, DEAD, Some WOLF_KILL, Some ''wolf'', False, None, None),
         (2, Some villager, ALIVE, None, None, False, None, None),
         (3, Some seer, ALIVE, None, None, False, None, None),
         (4, Some witch, ALIVE, None, None, False, None, None),
         (5, Some hunter, EXILED, Some VOTE_REASON, None, False, None, None),
         (6, Some wolf, ALIVE, None, None, False, None, None)])]
   \<and> outcome (handle_game_action (the (run_steps hunter_voted_out empty_manager))
                ''1005'' ''shoot'' ''6'') =
     Some (PlayerOut,
       [(''R1'', HUNTER_REVENGE, 1, None, None, None, None, None, [],
        [(1, Some villager, DEAD, Some WOLF_KILL, Some ''wolf'', False, None, None),
         (2, Some villager, ALIVE, None, None, False, None, None),
         (3, Some seer, ALIVE, None, None, False, None, None),
         (4, Some witch, ALIVE, None, None, False, None, None),
         (5, Some hunter, EXILED, Some VOTE_REASON, None, False, None, None),
         (6, Some wolf, ALIVE, None, None, False, None, None)])])"
  by code_simp

section \<open>C3: lovers die together\<close>

text \<open>
  C3 says that the partner of a lover who dies or is exiled by any cause dies with it.
  The death queue of the night does that: in the session \<open>lover_killed_at_night\<close> the
  wolf kills the lover at seat 1 and the partner at seat 2 dies of lover suicide, killed
  by seat 1. The vote does not: in the session \<open>lover_voted_out\<close> the same lovers are
  paired, the vote exiles seat 1, and seat 2 is still alive in the next night.
\<close>

theorem C3_exiled_lover_partner_survives:
  "standing (run_steps lover_killed_at_night empty_manager) =
     Some [(''R1'', DAY, 1, None, None, None, None, None, [],
        [(1, Some villager, DEAD, Some WOLF_KILL, Some ''wolf'', True, Some ''1002'', None),
         (2, Some villager, DEAD, Some LOVER_SUICIDE, Some ''1001'', True, Some ''1001'', None),
         (3, Some seer, ALIVE, None, None, False, None, None),
         (4, Some hunter, ALIVE, None, None, False, None, None),
         (5, Some wolf, ALIVE, None, None, False, None, None),
         (6, Some cupid, ALIVE, None, None, False, None, None)])]
   \<and> standing (run_steps lover_voted_out empty_manager) =
     Some [(''R1'', NIGHT, 2, None, None, None, None, None, [],
        [(1, Some villager, EXILED, Some VOTE_REASON, None, True, Some ''1002'', None),
         (2, Some villager, ALIVE, None, None, True, Some ''1001'', None),
         (3, Some seer, DEAD, Some WOLF_KILL, Some ''wolf'', False, None, None),
         (4, Some hunter, ALIVE, None, None, False, None, None),
         (5, Some wolf, ALIVE, None, None, False, None, None),
         (6, Some cupid, ALIVE, None, None, False, None, None)])]"
  by code_simp

section \<open>C4: the camp of a flipped double-faced player\<close>

text \<open>
  C4 says that a double-faced player whose camp was flipped is counted under the flipped
  camp. In the session \<open>double_faced_flipped\<close> the double-faced seat 6 was attacked by
  the wolf and carries the camp wolf; after the second night the seer, the hunter, the
  wolf and seat 6 are alive. The evaluator counts village 2, wolf 1, third party 1 (seat
  6 under its original role) and the game goes on into day 2; with seat 6 counted as a
  wolf, two wolves would face two villagers and the wolves would have won.
\<close>

theorem C4_flipped_double_faced_counted_as_third_party:
  "standing (run_steps double_faced_flipped empty_manager) =
     Some [(''R1'', DAY, 2, None, None, None, None, None, [],
        [(1, Some villager, EXILED, Some VOTE_REASON, None, False, None, None),
         (2, Some villager, DEAD, Some WOLF_KILL, Some ''wolf'', False, None, None),
         (3, Some seer, ALIVE, None, None, False, None, None),
         (4, Some hunter, ALIVE, None, None, False, None, None),
         (5, Some wolf, ALIVE, None, None, False, None, None),
         (6, Some double_faced, ALIVE, None, None, False, None, Some WOLF)])]
   \<and> census (run_steps double_faced_flipped empty_manager) = Some [(''R1'', Some (2, 1, 1, 0))]"
  by code_simp

section \<open>C5: the witch's candidate list\<close>

text \<open>
  C5 says that the candidate list presented to the witch has guard protection applied, so
  that a wolf-kill target who is guard-protected that night is not on it. It fails in the
  session \<open>guarded_target\<close>: the guard's action of this night names seat 1 and the
  wolf attacks seat 1; when the collection completes the room enters WITCH_SAVE_PHASE with
  seat 1 on the candidate list. After the witch's \<^verbatim>\<open>skip\<close> the guard's action is
  applied (seat 1 protected), the attack fails and seat 1 is alive in the day. The list
  is computed before any guard action of the night is processed.
\<close>

theorem C5_guarded_target_is_a_candidate:
  "standing (run_steps guarded_target empty_manager) =
     Some [(''R1'', WITCH_SAVE_PHASE, 1, None, Some ''1'', Some ''1'', None, None, [1],
        [(1, Some villager, ALIVE, None, None, False, None, None),
         (2, Some seer, ALIVE, None, None, False, None, None),
         (3, Some witch, ALIVE, None, None, False, None, None),
         (4, Some hunter, ALIVE, None, None, False, None, None),
         (5, Some wolf, ALIVE, None, None, False, None, None),
         (6, Some guard, ALIVE, None, None, False, None, None)])]
   \<and> standing (run_steps (guarded_target @ [act ''1003'' ''skip'' []]) empty_manager) =
     Some [(''R1'', DAY, 1, None, None, None, Some 1, Some 1, [],
        [(1, Some villager, ALIVE, None, None, False, None, None),
         (2, Some seer, ALIVE, None, None, False, None, None),
         (3, Some witch, ALIVE, None, None, False, None, None),
         (4, Some hunter, ALIVE, None, None, False, None, None),
         (5, Some wolf, ALIVE, None, None, False, None, None),
         (6, Some guard, ALIVE, None, None, False, None, None)])]"
  by code_simp

lemma found_by_role:
  "get_player_by_role g r = Some (k, p) \<Longrightarrow> role p = Some r \<and> status p = ALIVE"
  by (auto simp: get_player_by_role_def find_Some_iff)

lemma settle_same:
  "map_of (games m) rid = Some g \<Longrightarrow> settle m rid g False = m"
  by (simp add: settle_def AList.update_triv)

lemma candidates_cases:
  "calculate_potential_deaths g = []
   \<or> (\<exists>a n k p. get_action g ''wolf_kill'' = Some a \<and> py_int a = Some n
          \<and> get_player_by_number g n = Some (k, p) \<and> status p = ALIVE
          \<and> role p \<noteq> Some double_faced
          \<and> calculate_potential_deaths g = [(n, name p)])"
  by (auto simp: calculate_potential_deaths_def split: option.splits)

lemma candidates_without_guard:
  "calculate_potential_deaths
     (g\<lparr>guard_protected := gp, last_guard_target := lg,
        night_actions := (night_actions g)(''guard'' := ga)\<rparr>)
   = calculate_potential_deaths g"
  by (simp add: calculate_potential_deaths_def get_action_def get_player_by_number_def
      cong: option.case_cong)

text \<open>
  C5 as amended: when the collection of a night completes and the living witch still has
  her antidote, the candidate list presented to her is the seat the wolves named, if it
  is held by a living player who is not double-faced, and the room enters
  WITCH_SAVE_PHASE; the list does not depend on the guard (neither on the protected seat,
  nor on the guard's last target, nor on the guard's action of the night), and it is
  either empty or that one seat. In WITCH_SAVE_PHASE a \<^verbatim>\<open>save\<close> that names a seat
  outside the stored list is turned down and the manager is left as it was.
\<close>

theorem C5_candidates_ignore_guard:
  "(check_all_night_actions_completed g = Some True
      \<and> get_player_by_role g witch = Some (wk, wp)
      \<and> (witch_status g = HAS_BOTH \<or> witch_status g = HAS_SAVE_ONLY)
      \<and> \<not> witch_used_save_this_night g
      \<and> get_action g ''wolf_kill'' = Some a \<and> py_int a = Some n
      \<and> get_player_by_number g n = Some (k, p) \<and> status p = ALIVE
      \<and> role p \<noteq> Some double_faced \<longrightarrow>
      process_night_actions g =
        Some (g\<lparr>witch_save_candidates := [(n, name p)], phase := WITCH_SAVE_PHASE\<rparr>, False))
   \<and> calculate_potential_deaths
        (g\<lparr>guard_protected := gp, last_guard_target := lg,
           night_actions := (night_actions g)(''guard'' := ga)\<rparr>)
      = calculate_potential_deaths g
   \<and> (calculate_potential_deaths g = []
        \<or> (\<exists>a n k p. get_action g ''wolf_kill'' = Some a \<and> py_int a = Some n
              \<and> get_player_by_number g n = Some (k, p) \<and> status p = ALIVE
              \<and> role p \<noteq> Some double_faced
              \<and> calculate_potential_deaths g = [(n, name p)]))
   \<and> (find_user_game m u = Some rid \<and> map_of (games m) rid = Some g
        \<and> map_of (players g) u = Some player \<and> status player = ALIVE
        \<and> phase g = WITCH_SAVE_PHASE \<and> args \<noteq> [] \<and> py_int args = Some t
        \<and> t \<notin> set (map fst (witch_save_candidates g)) \<longrightarrow>
        (\<exists>reply. handle_game_action m u ''save'' args = Some (m, reply)
                  \<and> reply \<in> {NotWitch, SaveTargetInvalid}))"
proof (intro conjI impI)
  assume h: "check_all_night_actions_completed g = Some True
      \<and> get_player_by_role g witch = Some (wk, wp)
      \<and> (witch_status g = HAS_BOTH \<or> witch_status g = HAS_SAVE_ONLY)
      \<and> \<not> witch_used_save_this_night g
      \<and> get_action g ''wolf_kill'' = Some a \<and> py_int a = Some n
      \<and> get_player_by_number g n = Some (k, p) \<and> status p = ALIVE
      \<and> role p \<noteq> Some double_faced"
  then have alive: "status wp = ALIVE" using found_by_role[of g witch wk wp] by simp
  have c: "calculate_potential_deaths g = [(n, name p)]"
    using h by (simp add: calculate_potential_deaths_def)
  show "process_night_actions g =
        Some (g\<lparr>witch_save_candidates := [(n, name p)], phase := WITCH_SAVE_PHASE\<rparr>, False)"
    using h alive c by (auto simp: process_night_actions_def Let_def)
next
  show "calculate_potential_deaths
        (g\<lparr>guard_protected := gp, last_guard_target := lg,
           night_actions := (night_actions g)(''guard'' := ga)\<rparr>)
      = calculate_potential_deaths g"
    by (rule candidates_without_guard)
next
  show "calculate_potential_deaths g = []
        \<or> (\<exists>a n k p. get_action g ''wolf_kill'' = Some a \<and> py_int a = Some n
              \<and> get_player_by_number g n = Some (k, p) \<and> status p = ALIVE
              \<and> role p \<noteq> Some double_faced
              \<and> calculate_potential_deaths g = [(n, name p)])"
    by (rule candidates_cases)
next
  assume r: "find_user_game m u = Some rid \<and> map_of (games m) rid = Some g
        \<and> map_of (players g) u = Some player \<and> status player = ALIVE
        \<and> phase g = WITCH_SAVE_PHASE \<and> args \<noteq> [] \<and> py_int args = Some t
        \<and> t \<notin> set (map fst (witch_save_candidates g))"
  then have s: "settle m rid g False = m" by (simp add: settle_same)
  have "handle_witch_save_action g (u, player) args =
          Some (g, False, if role player \<noteq> Some witch then NotWitch else SaveTargetInvalid)"
    using r by (simp add: handle_witch_save_action_def)
  then have "handle_game_action m u ''save'' args =
          Some (m, if role player \<noteq> Some witch then NotWitch else SaveTargetInvalid)"
    using r s by (simp add: handle_game_action_def)
  then show "\<exists>reply. handle_game_action m u ''save'' args = Some (m, reply)
                  \<and> reply \<in> {NotWitch, SaveTargetInvalid}"
    by auto
qed

theorem C5_candidates_ignore_guard_witness:
  "check_all_night_actions_completed wolf_action_recorded = Some True
   \<and> map_option (\<lambda>(k, p). (k, number p)) (get_player_by_role wolf_action_recorded witch)
       = Some (''1003'', 3)
   \<and> witch_status wolf_action_recorded = HAS_BOTH
   \<and> \<not> witch_used_save_this_night wolf_action_recorded
   \<and> get_action wolf_action_recorded ''guard'' = Some ''1''
   \<and> get_action wolf_action_recorded ''wolf_kill'' = Some ''1''
   \<and> py_int ''1'' = Some 1
   \<and> map_option (\<lambda>(k, p). (k, status p, role p)) (get_player_by_number wolf_action_recorded 1)
       = Some (''1001'', ALIVE, Some villager)
   \<and> process_night_actions wolf_action_recorded =
        Some (wolf_action_recorded
                \<lparr>witch_save_candidates :=
                   [(1, name (snd (the (get_player_by_number wolf_action_recorded 1))))],
                 phase := WITCH_SAVE_PHASE\<rparr>, False)
   \<and> find_user_game witch_deciding ''1003'' = Some ''R1''
   \<and> map_of (games witch_deciding) ''R1'' = Some (room_of (Some witch_deciding) ''R1'')
   \<and> phase (room_of (Some witch_deciding) ''R1'') = WITCH_SAVE_PHASE
   \<and> map fst (witch_save_candidates (room_of (Some witch_deciding) ''R1'')) = [1]
   \<and> py_int ''2'' = Some 2
   \<and> (\<exists>reply. handle_game_action witch_deciding ''1003'' ''save'' ''2''
                  = Some (witch_deciding, reply)
               \<and> reply \<in> {NotWitch, SaveTargetInvalid})"
proof -
  let ?g = wolf_action_recorded
  let ?w = "the (get_player_by_role ?g witch)"
  let ?t = "the (get_player_by_number ?g 1)"
  let ?r = "room_of (Some witch_deciding) ''R1''"
  let ?pl = "the (map_of (players ?r) ''1003'')"
  have c1: "check_all_night_actions_completed ?g = Some True" by code_simp
  have c2: "map_option (\<lambda>(k, p). (k, number p)) (get_player_by_role ?g witch) = Some (''1003'', 3)"
    by code_simp
  then have c2': "get_player_by_role ?g witch = Some (fst ?w, snd ?w)"
    by (cases "get_player_by_role ?g witch") auto
  have c3: "witch_status ?g = HAS_BOTH" by code_simp
  have c4: "\<not> witch_used_save_this_night ?g" by code_simp
  have c5: "get_action ?g ''guard'' = Some ''1''" by code_simp
  have c6: "get_action ?g ''wolf_kill'' = Some ''1''" by code_simp
  have c7: "py_int ''1'' = Some 1" by code_simp
  have c8: "map_option (\<lambda>(k, p). (k, status p, role p)) (get_player_by_number ?g 1)
       = Some (''1001'', ALIVE, Some villager)" by code_simp
  then have c8': "get_player_by_number ?g 1 = Some (fst ?t, snd ?t)"
    by (cases "get_player_by_number ?g 1") auto
  have c9: "status (snd ?t) = ALIVE \<and> role (snd ?t) \<noteq> Some double_faced" by code_simp
  have d1: "find_user_game witch_deciding ''1003'' = Some ''R1''" by code_simp
  have "\<not> Option.is_none (map_of (games witch_deciding) ''R1'')" by code_simp
  then have d2: "map_of (games witch_deciding) ''R1'' = Some ?r"
    using some_the by (simp add: room_of_def)
  have "\<not> Option.is_none (map_of (players ?r) ''1003'')" by code_simp
  then have d3: "map_of (players ?r) ''1003'' = Some ?pl" by (rule some_the)
  have d4: "status ?pl = ALIVE" by code_simp
  have d5: "phase ?r = WITCH_SAVE_PHASE" by code_simp
  have d6: "map fst (witch_save_candidates ?r) = [1]" by code_simp
  have d7: "py_int ''2'' = Some 2" by code_simp
  have d8: "(2::int) \<notin> set (map fst (witch_save_candidates ?r))" unfolding d6 by simp
  note th = C5_candidates_ignore_guard[where g = ?g and wk = "fst ?w" and wp = "snd ?w"
      and a = "''1''" and n = 1 and k = "fst ?t" and p = "snd ?t"]
  have h1: "check_all_night_actions_completed ?g = Some True
      \<and> get_player_by_role ?g witch = Some (fst ?w, snd ?w)
      \<and> (witch_status ?g = HAS_BOTH \<or> witch_status ?g = HAS_SAVE_ONLY)
      \<and> \<not> witch_used_save_this_night ?g
      \<and> get_action ?g ''wolf_kill'' = Some ''1'' \<and> py_int ''1'' = Some 1
      \<and> get_player_by_number ?g 1 = Some (fst ?t, snd ?t) \<and> status (snd ?t) = ALIVE
      \<and> role (snd ?t) \<noteq> Some double_faced"
    using c1 c2' c3 c4 c6 c7 c8' c9 by blast
  have r1: "process_night_actions ?g =
        Some (?g\<lparr>witch_save_candidates := [(1, name (snd ?t))], phase := WITCH_SAVE_PHASE\<rparr>, False)"
    by (rule th[THEN conjunct1, THEN mp, OF h1])
  have h2: "find_user_game witch_deciding ''1003'' = Some ''R1''
        \<and> map_of (games witch_deciding) ''R1'' = Some ?r
        \<and> map_of (players ?r) ''1003'' = Some ?pl \<and> status ?pl = ALIVE
        \<and> phase ?r = WITCH_SAVE_PHASE \<and> ''2'' \<noteq> [] \<and> py_int ''2'' = Some 2
        \<and> 2 \<notin> set (map fst (witch_save_candidates ?r))"
    using d1 d2 d3 d4 d5 d7 d8 by simp
  have r2: "\<exists>reply. handle_game_action witch_deciding ''1003'' ''save'' ''2''
                  = Some (witch_deciding, reply)
               \<and> reply \<in> {NotWitch, SaveTargetInvalid}"
    by (rule C5_candidates_ignore_guard[where g = ?r and m = witch_deciding and u = "''1003''"
          and rid = "''R1''" and player = ?pl and args = "''2''" and t = 2,
          THEN conjunct2, THEN conjunct2, THEN conjunct2, THEN mp, OF h2])
  show ?thesis using c1 c2 c3 c4 c5 c6 c7 c8 r1 d1 d2 d5 d6 d7 r2 by blast
qed

section \<open>C6: starting a game\<close>

lemma wf_room_create: "wf_room (snd (create_game m rid host_qq gid host_name))"
  by (simp add: create_game_def wf_room_def default_roles_def Let_def)

lemma wf_room_join:
  assumes "map_of (games m) rid = Some g" and "wf_room g"
    and "join_game m rid q n = (m', True)"
  shows "\<exists>g'. map_of (games m') rid = Some g' \<and> wf_room g'"
  using assms
  by (auto simp: join_game_def wf_room_def Let_def get_or_create_profile_def AList.update_conv'
      split: if_splits option.splits)

lemma wf_room_roles:
  "wf_room g \<Longrightarrow> 0 \<le> c \<Longrightarrow> wf_room (g\<lparr>roles := AList.update r c (roles g)\<rparr>)"
proof -
  have "list_all (\<lambda>(r, c). 0 \<le> c) rs \<Longrightarrow> 0 \<le> c \<Longrightarrow>
        list_all (\<lambda>(r, c). 0 \<le> c) (AList.update r c rs)" for rs :: "(Role \<times> int) list"
    by (induction rs) auto
  then show "wf_room g \<Longrightarrow> 0 \<le> c \<Longrightarrow> wf_room (g\<lparr>roles := AList.update r c (roles g)\<rparr>)"
    by (simp add: wf_room_def AList.distinct_update)
qed

lemma length_shuffle_loop: "length (shuffle_loop rnd i xs) = length xs"
  by (induction i arbitrary: xs) (simp_all add: Let_def)

lemma mset_shuffle_loop: "i < length xs \<Longrightarrow> mset (shuffle_loop rnd i xs) = mset xs"
proof (induction i arbitrary: xs)
  case 0
  then show ?case by simp
next
  case (Suc i)
  let ?j = "rnd (Suc i) mod (Suc i + 1)"
  have "?j < Suc i + 1" by simp
  then have j: "?j < length xs" using Suc.prems by linarith
  have "mset (xs[Suc i := xs ! ?j, ?j := xs ! Suc i]) = mset xs"
    using mset_swap[OF j Suc.prems] .
  moreover have "i < length (xs[Suc i := xs ! ?j, ?j := xs ! Suc i])" using Suc.prems by simp
  ultimately show ?case using Suc.IH by (simp add: Let_def)
qed

lemma mset_shuffle: "mset (shuffle rnd xs) = mset xs"
  by (cases xs) (simp_all add: shuffle_def mset_shuffle_loop)

lemma length_shuffle: "length (shuffle rnd xs) = length xs"
  by (simp add: shuffle_def length_shuffle_loop)

lemma count_list_shuffle: "count_list (shuffle rnd xs) r = count_list xs r"
  using mset_shuffle[of rnd xs] by (metis count_mset)

lemma update_in_middle:
  "q \<notin> fst ` set front \<Longrightarrow> AList.update q v (front @ (q, p) # back) = front @ (q, v) # back"
  by (induction front) auto

lemma map_of_in_middle:
  "q \<notin> fst ` set front \<Longrightarrow> map_of (front @ (q, p) # back) q = Some p"
  by (induction front) auto

lemma assign_roles_from:
  "distinct (map fst (front @ todo)) \<Longrightarrow> length todo \<le> length rs \<Longrightarrow>
   assign_roles rs (map fst todo) (front @ todo) = Some (front @ map2 deal todo rs)"
proof (induction todo arbitrary: front rs)
  case Nil
  then show ?case by simp
next
  case (Cons a todo)
  obtain q p where a: "a = (q, p)" by (cases a)
  obtain r rs' where rs: "rs = r # rs'" using Cons.prems(2) by (cases rs) auto
  have nf: "q \<notin> fst ` set front" using Cons.prems(1) a by auto
  have d: "distinct (map fst ((front @ [deal (q, p) r]) @ todo))"
    using Cons.prems(1) a by (auto simp: deal_def)
  have "assign_roles rs' (map fst todo) ((front @ [deal (q, p) r]) @ todo)
        = Some ((front @ [deal (q, p) r]) @ map2 deal todo rs')"
    using Cons.IH[OF d] Cons.prems(2) rs by simp
  moreover have "map_of (front @ (q, p) # todo) q = Some p"
    by (rule map_of_in_middle[OF nf])
  moreover have "AList.update q (p\<lparr>role := Some r, original_role := Some r\<rparr>) (front @ (q, p) # todo)
        = front @ (q, p\<lparr>role := Some r, original_role := Some r\<rparr>) # todo"
    by (rule update_in_middle[OF nf])
  ultimately show ?case
    unfolding a rs by (simp add: deal_def del: map_of_append)
qed

lemma assign_roles_all:
  "distinct (map fst ps) \<Longrightarrow> length rs = length ps \<Longrightarrow>
   assign_roles rs (map fst ps) ps = Some (map2 deal ps rs)"
  using assign_roles_from[of "[]" ps rs] by simp

lemma dealt_keys: "length rs = length ps \<Longrightarrow> map fst (map2 deal ps rs) = map fst ps"
  by (induction ps rs rule: list_induct2') (auto simp: deal_def)

lemma dealt_roles: "length rs = length ps \<Longrightarrow> map (role \<circ> snd) (map2 deal ps rs) = map Some rs"
  by (induction ps rs rule: list_induct2') (auto simp: deal_def)

lemma dealt_once:
  "list_all (\<lambda>(k, p). role p \<noteq> None \<and> original_role p = role p) (map2 deal ps rs)"
  by (induction ps rs rule: list_induct2') (auto simp: deal_def)

lemma dealt_rest:
  "length rs = length ps \<Longrightarrow>
   map (\<lambda>(k, p). (k, p\<lparr>role := None, original_role := None\<rparr>)) (map2 deal ps rs)
   = map (\<lambda>(k, p). (k, p\<lparr>role := None, original_role := None\<rparr>)) ps"
  by (induction ps rs rule: list_induct2') (auto simp: deal_def)

lemma length_roles_to_assign:
  "list_all (\<lambda>(r, c). 0 \<le> c) rs \<Longrightarrow> int (length (roles_to_assign rs)) = sum_list (map snd rs)"
  by (induction rs) (auto simp: roles_to_assign_def)

lemma count_roles_to_assign:
  "distinct (map fst rs) \<Longrightarrow>
   count_list (roles_to_assign rs) r = (case map_of rs r of None \<Rightarrow> 0 | Some c \<Rightarrow> nat c)"
proof (induction rs)
  case Nil
  then show ?case by (simp add: roles_to_assign_def)
next
  case (Cons a rs)
  obtain r' c where a: "a = (r', c)" by (cases a)
  have rep: "\<And>n. count_list (replicate n r') r = (if r' = r then n else 0)"
    subgoal for n by (induction n) auto
    done
  have none: "r' = r \<Longrightarrow> map_of rs r = None"
    using Cons.prems a by (auto simp: map_of_eq_None_iff)
  have "roles_to_assign (a # rs) = replicate (nat c) r' @ roles_to_assign rs"
    by (simp add: roles_to_assign_def a)
  then show ?case using Cons a rep none by auto
qed

lemma count_list_map_Some: "count_list (map Some xs) (Some r) = count_list xs r"
  by (induction xs) auto

text \<open>
  C6: \<^verbatim>\<open>start_game\<close> on an unknown room fails. On a well-formed live room it succeeds
  exactly when at least 6 players are seated and the configured role counts sum to the
  number of seated players; otherwise it answers \<open>False\<close> and the manager is unchanged.
  On success the room is in phase NIGHT with day count 1, the seats are the same, every
  seat has exactly one role (equal to its original role), each role is held by as many
  seats as configured (the assigned roles are a permutation of the configured multiset,
  whatever the draws \<open>rnd\<close> of the shuffle), and nothing else of a seat has changed.
\<close>

theorem C6_start_game:
  "(map_of (games m) rid = None \<longrightarrow> start_game rnd m rid = Some (m, False))
   \<and> (map_of (games m) rid = Some g \<and> wf_room g \<longrightarrow>
        (if 6 \<le> length (players g) \<and> sum_list (map snd (roles g)) = int (length (players g))
         then \<exists>ps. start_game rnd m rid =
                 Some (m\<lparr>games := AList.update rid
                          (g\<lparr>players := ps, phase := NIGHT, day_count := 1\<rparr>) (games m)\<rparr>, True)
               \<and> map fst ps = map fst (players g)
               \<and> list_all (\<lambda>(k, p). role p \<noteq> None \<and> original_role p = role p) ps
               \<and> (\<forall>r. count_list (map (role \<circ> snd) ps) (Some r) = configured g r)
               \<and> mset (map (role \<circ> snd) ps) = mset (map Some (roles_to_assign (roles g)))
               \<and> map (\<lambda>(k, p). (k, p\<lparr>role := None, original_role := None\<rparr>)) ps
                   = map (\<lambda>(k, p). (k, p\<lparr>role := None, original_role := None\<rparr>)) (players g)
         else start_game rnd m rid = Some (m, False)))"
proof (intro conjI impI)
  assume "map_of (games m) rid = None"
  then show "start_game rnd m rid = Some (m, False)" by (simp add: start_game_def)
next
  assume a: "map_of (games m) rid = Some g \<and> wf_room g"
  then have g: "map_of (games m) rid = Some g" and wf: "wf_room g" by auto
  let ?rs = "roles_to_assign (roles g)"
  have len: "int (length ?rs) = sum_list (map snd (roles g))"
    using wf by (simp add: wf_room_def length_roles_to_assign)
  show "if 6 \<le> length (players g) \<and> sum_list (map snd (roles g)) = int (length (players g))
         then \<exists>ps. start_game rnd m rid =
                 Some (m\<lparr>games := AList.update rid
                          (g\<lparr>players := ps, phase := NIGHT, day_count := 1\<rparr>) (games m)\<rparr>, True)
               \<and> map fst ps = map fst (players g)
               \<and> list_all (\<lambda>(k, p). role p \<noteq> None \<and> original_role p = role p) ps
               \<and> (\<forall>r. count_list (map (role \<circ> snd) ps) (Some r) = configured g r)
               \<and> mset (map (role \<circ> snd) ps) = mset (map Some (roles_to_assign (roles g)))
               \<and> map (\<lambda>(k, p). (k, p\<lparr>role := None, original_role := None\<rparr>)) ps
                   = map (\<lambda>(k, p). (k, p\<lparr>role := None, original_role := None\<rparr>)) (players g)
         else start_game rnd m rid = Some (m, False)"
  proof (cases "6 \<le> length (players g) \<and> sum_list (map snd (roles g)) = int (length (players g))")
    case False
    then have "length (players g) < 6 \<or> length ?rs \<noteq> length (players g)"
      using len by auto
    then have "start_game rnd m rid = Some (m, False)"
      using g by (auto simp: start_game_def)
    with False show ?thesis by simp
  next
    case True
    then have six: "\<not> length (players g) < 6" and eq: "length ?rs = length (players g)"
      using len by auto
    let ?sh = "shuffle rnd ?rs"
    let ?ps = "map2 deal (players g) ?sh"
    have lsh: "length ?sh = length (players g)" by (simp add: length_shuffle eq)
    have ar: "assign_roles ?sh (player_order g) (players g) = Some ?ps"
      using wf lsh by (simp add: wf_room_def assign_roles_all)
    have s: "start_game rnd m rid =
        Some (m\<lparr>games := AList.update rid
                 (g\<lparr>players := ?ps, phase := NIGHT, day_count := 1\<rparr>) (games m)\<rparr>, True)"
      using g six eq ar by (simp add: start_game_def)
    have dr: "map (role \<circ> snd) ?ps = map Some ?sh" by (rule dealt_roles[OF lsh])
    have c: "\<forall>r. count_list (map (role \<circ> snd) ?ps) (Some r) = configured g r"
      unfolding dr using wf
      by (simp add: count_list_map_Some count_list_shuffle count_roles_to_assign
          configured_def wf_room_def)
    have ms: "mset (map (role \<circ> snd) ?ps) = mset (map Some ?rs)"
      unfolding dr by (simp add: mset_shuffle)
    have "\<exists>ps. start_game rnd m rid =
                 Some (m\<lparr>games := AList.update rid
                          (g\<lparr>players := ps, phase := NIGHT, day_count := 1\<rparr>) (games m)\<rparr>, True)
               \<and> map fst ps = map fst (players g)
               \<and> list_all (\<lambda>(k, p). role p \<noteq> None \<and> original_role p = role p) ps
               \<and> (\<forall>r. count_list (map (role \<circ> snd) ps) (Some r) = configured g r)
               \<and> mset (map (role \<circ> snd) ps) = mset (map Some (roles_to_assign (roles g)))
               \<and> map (\<lambda>(k, p). (k, p\<lparr>role := None, original_role := None\<rparr>)) ps
                   = map (\<lambda>(k, p). (k, p\<lparr>role := None, original_role := None\<rparr>)) (players g)"
      using s c ms dealt_keys[OF lsh] dealt_once[of "players g" ?sh] dealt_rest[OF lsh]
      by (intro exI[of _ ?ps] conjI)
    then show ?thesis using True by simp
  qed
qed

theorem C6_start_game_witness:
  "map_of (games six_ready) ''R1'' = Some (room_of (Some six_ready) ''R1'')
   \<and> wf_room (room_of (Some six_ready) ''R1'')
   \<and> 6 \<le> length (players (room_of (Some six_ready) ''R1''))
   \<and> sum_list (map snd (roles (room_of (Some six_ready) ''R1'')))
       = int (length (players (room_of (Some six_ready) ''R1'')))
   \<and> (\<exists>ps. start_game (\<lambda>i. 0) six_ready ''R1'' =
          Some (six_ready\<lparr>games := AList.update ''R1''
                  ((room_of (Some six_ready) ''R1'')\<lparr>players := ps, phase := NIGHT, day_count := 1\<rparr>)
                  (games six_ready)\<rparr>, True)
        \<and> map fst ps = map fst (players (room_of (Some six_ready) ''R1''))
        \<and> list_all (\<lambda>(k, p). role p \<noteq> None \<and> original_role p = role p) ps
        \<and> (\<forall>r. count_list (map (role \<circ> snd) ps) (Some r)
                 = configured (room_of (Some six_ready) ''R1'') r)
        \<and> mset (map (role \<circ> snd) ps)
            = mset (map Some (roles_to_assign (roles (room_of (Some six_ready) ''R1'')))))
   \<and> map (role \<circ> snd)
        (players (room_of (map_option fst (start_game (\<lambda>i. 0) six_ready ''R1'')) ''R1''))
       = [Some villager, Some seer, Some witch, Some hunter, Some wolf, Some villager]
   \<and> map_of (games eight_seated) ''R1'' = Some (room_of (Some eight_seated) ''R1'')
   \<and> wf_room (room_of (Some eight_seated) ''R1'')
   \<and> sum_list (map snd (roles (room_of (Some eight_seated) ''R1''))) = 7
   \<and> length (players (room_of (Some eight_seated) ''R1'')) = 8
   \<and> start_game (\<lambda>i. 0) eight_seated ''R1'' = Some (eight_seated, False)
   \<and> map_of (games empty_manager) ''R1'' = None
   \<and> start_game (\<lambda>i. 0) empty_manager ''R1'' = Some (empty_manager, False)"
proof -
  let ?g = "room_of (Some six_ready) ''R1''"
  let ?h = "room_of (Some eight_seated) ''R1''"
  have "\<not> Option.is_none (map_of (games six_ready) ''R1'')" by code_simp
  then have g: "map_of (games six_ready) ''R1'' = Some ?g"
    using some_the by (simp add: room_of_def)
  have wf: "wf_room ?g" by code_simp
  have c: "6 \<le> length (players ?g) \<and> sum_list (map snd (roles ?g)) = int (length (players ?g))"
    by code_simp
  have ev: "map (role \<circ> snd)
        (players (room_of (map_option fst (start_game (\<lambda>i. 0) six_ready ''R1'')) ''R1''))
       = [Some villager, Some seer, Some witch, Some hunter, Some wolf, Some villager]"
    by code_simp
  have "\<not> Option.is_none (map_of (games eight_seated) ''R1'')" by code_simp
  then have h: "map_of (games eight_seated) ''R1'' = Some ?h"
    using some_the by (simp add: room_of_def)
  have wfh: "wf_room ?h" by code_simp
  have s7: "sum_list (map snd (roles ?h)) = 7" by code_simp
  have l8: "length (players ?h) = 8" by code_simp
  have e: "map_of (games empty_manager) ''R1'' = None" by (simp add: empty_manager_def)
  from C6_start_game[where m = six_ready and rid = "''R1''" and g = ?g and rnd = "\<lambda>i. 0"] g wf c
  have ok: "\<exists>ps. start_game (\<lambda>i. 0) six_ready ''R1'' =
          Some (six_ready\<lparr>games := AList.update ''R1''
                  (?g\<lparr>players := ps, phase := NIGHT, day_count := 1\<rparr>)
                  (games six_ready)\<rparr>, True)
        \<and> map fst ps = map fst (players ?g)
        \<and> list_all (\<lambda>(k, p). role p \<noteq> None \<and> original_role p = role p) ps
        \<and> (\<forall>r. count_list (map (role \<circ> snd) ps) (Some r) = configured ?g r)
        \<and> mset (map (role \<circ> snd) ps) = mset (map Some (roles_to_assign (roles ?g)))"
    by (simp only: simp_thms if_True) blast
  from C6_start_game[where m = eight_seated and rid = "''R1''" and g = ?h and rnd = "\<lambda>i. 0"] h wfh s7 l8
  have no: "start_game (\<lambda>i. 0) eight_seated ''R1'' = Some (eight_seated, False)"
    by simp
  from C6_start_game[where m = empty_manager and rid = "''R1''" and rnd = "\<lambda>i. 0"] e
  have un: "start_game (\<lambda>i. 0) empty_manager ''R1'' = Some (empty_manager, False)"
    by blast
  show ?thesis using g wf c ok ev h wfh s7 l8 no e un by blast
qed

section \<open>C7: the default settings of a new room\<close>

text \<open>
  C7 says that the default role counts of a new room sum to 8, the default player count,
  so that a full default room can start. The host is at seat 1 and the player count is
  8, but the default counts sum to 7: when eight users fill the room of the session
  \<open>table_of_eight\<close>, the host's \<^verbatim>\<open>start\<close> fails and the room stays in SETUP.
\<close>

theorem C7_default_roles_sum_to_seven:
  "room_view (snd (create_game empty_manager ''R1'' ''1001'' ''g1'' ''host'')) =
     (SETUP, 0, None, None, None, None, None, [],
      [(1, None, ALIVE, None, None, False, None, None)])
   \<and> map fst (players (snd (create_game empty_manager ''R1'' ''1001'' ''g1'' ''host''))) = [''1001'']
   \<and> player_count (snd (create_game empty_manager ''R1'' ''1001'' ''g1'' ''host'')) = 8
   \<and> sum_list (map snd (roles (snd (create_game empty_manager ''R1'' ''1001'' ''g1'' ''host'')))) = 7
   \<and> outcome (start_game_cmd (\<lambda>i. i) eight_seated ''1001'') =
     Some (StartFailed,
       [(''R1'', SETUP, 0, None, None, None, None, None, [],
         [(1, None, ALIVE, None, None, False, None, None),
          (2, None, ALIVE, None, None, False, None, None),
          (3, None, ALIVE, None, None, False, None, None),
          (4, None, ALIVE, None, None, False, None, None),
          (5, None, ALIVE, None, None, False, None, None),
          (6, None, ALIVE, None, None, False, None, None),
          (7, None, ALIVE, None, None, False, None, None),
          (8, None, ALIVE, None, None, False, None, None)])])"
  by code_simp

section \<open>C8: the vote\<close>






















section \<open>C9: the guard may not repeat\<close>

text \<open>
  C9 says that when the guard names on night n the seat it protected on night n-1, the
  seat gains no protection for night n. In the session \<open>guard_repeats\<close> the guard
  protects seat 1 in the first night; the protected seat is never cleared, so the second
  night starts with seat 1 still protected. The guard's second \<^verbatim>\<open>guard 1\<close> is ignored,
  the wolf attacks seat 1, and seat 1 is alive in day 2: the stale protection stopped
  the attack.
\<close>

theorem C9_repeated_guard_target_stays_protected:
  "standing (run_steps guard_first_cycle empty_manager) =
     Some [(''R1'', NIGHT, 2, None, None, None, Some 1, Some 1, [],
        [(1, Some villager, ALIVE, None, None, False, None, None),
         (2, Some villager, DEAD, Some WOLF_KILL, Some ''wolf'', False, None, None),
         (3, Some seer, ALIVE, None, None, False, None, None),
         (4, Some hunter, ALIVE, None, None, False, None, None),
         (5, Some wolf, ALIVE, None, None, False, None, None),
         (6, Some guard, ALIVE, None, None, False, None, None)])]
   \<and> standing (run_steps guard_repeats empty_manager) =
     Some [(''R1'', DAY, 2, None, None, None, Some 1, Some 1, [],
        [(1, Some villager, ALIVE, None, None, False, None, None),
         (2, Some villager, DEAD, Some WOLF_KILL, Some ''wolf'', False, None, None),
         (3, Some seer, ALIVE, None, None, False, None, None),
         (4, Some hunter, ALIVE, None, None, False, None, None),
         (5, Some wolf, ALIVE, None, None, False, None, None),
         (6, Some guard, ALIVE, None, None, False, None, None)])]"
  by code_simp

section \<open>C10: one live room per user\<close>











end
